theory Spec2Isabelle
  imports Complex_Main "HOL-Library.Char_ord" "HOL-Library.List_Lexorder"
begin

section \<open>Errors\<close>

text \<open>
  Every exception the modelled functions of \<open>app/data_utils.py\<close> can raise is a
  constructor of one datatype; a function that may raise returns
  \<open>py_error + 'a\<close>, with \<open>Inl\<close> the exception.
\<close>

datatype py_error =
    ValueError
  | TypeError
  | IndexError
  | KeyError
  | RuntimeError
  | ZeroDivisionError
  | UnboundLocalError
  | NotImplementedError
  | FileNotFoundError
  | RequestException
  | OverflowError

section \<open>parse_dates\<close>

text \<open>
  A Python string is a \<open>string\<close>, one \<open>char\<close> per code point, so the model
  covers the code points below 256. \<open>s[i:j]\<close> with \<open>0 \<le> i \<le> j\<close> never raises:
  it is cut at the end of the string.
\<close>

definition py_slice :: "nat \<Rightarrow> nat \<Rightarrow> 'a list \<Rightarrow> 'a list" where
  "py_slice i j s = take (j - i) (drop i s)"

text \<open>
  \<open>str.isdigit\<close> on one code point below 256: the decimal digits, and the
  superscript digits U+00B2, U+00B3 and U+00B9. On a string it asks for at least one
  character, and for every character to be a digit.
\<close>

definition isdigit_char :: "char \<Rightarrow> bool" where
  "isdigit_char c =
     (let n = (of_char c :: nat)
      in (48 \<le> n \<and> n \<le> 57) \<or> n = 178 \<or> n = 179 \<or> n = 185)"

definition str_isdigit :: "string \<Rightarrow> bool" where
  "str_isdigit s = (s \<noteq> [] \<and> list_all isdigit_char s)"

definition format_date :: "string \<Rightarrow> string" where
  "format_date d = take 4 d @ ''/'' @ py_slice 4 6 d @ ''/'' @ drop 6 d"

text \<open>The body of the \<open>try\<close> block.\<close>

definition parse_dates_body :: "string \<Rightarrow> py_error + string" where
  "parse_dates_body input_string =
     (if length input_string < 19 then Inl ValueError
      else
        let start_date = py_slice 0 8 input_string;
            end_date = py_slice 12 20 input_string
        in if \<not> (str_isdigit start_date \<and> length start_date = 8) then Inl ValueError
           else if \<not> (str_isdigit end_date \<and> length end_date = 8) then Inl ValueError
           else Inr (format_date start_date @ '' - '' @ format_date end_date))"

text \<open>\<open>except Exception as e: raise ValueError(...) from e\<close>: whatever was raised
  reaches the caller as a \<open>ValueError\<close>.\<close>

definition parse_dates :: "string \<Rightarrow> py_error + string" where
  "parse_dates input_string =
     (case parse_dates_body input_string of
        Inl e \<Rightarrow> Inl ValueError
      | Inr r \<Rightarrow> Inr r)"

text \<open>What the claim calls an 8-character all-digit string.\<close>

definition digits8 :: "string \<Rightarrow> bool" where
  "digits8 t = (length t = 8 \<and> (\<forall>c \<in> set t. isdigit_char c))"

section \<open>calculate_centroid\<close>

text \<open>
  Coordinates are Python floats; they are modelled as real numbers, so the rounding of
  the floating-point sum and quotient is left out. The loop adds the points to the two
  running totals in list order.
\<close>

fun centroid_loop :: "(real \<times> real) list \<Rightarrow> real \<times> real \<Rightarrow> real \<times> real" where
  "centroid_loop [] (total_x, total_y) = (total_x, total_y)"
| "centroid_loop ((x, y) # coords) (total_x, total_y) =
     centroid_loop coords (total_x + x, total_y + y)"

definition calculate_centroid :: "(real \<times> real) list \<Rightarrow> py_error + real list" where
  "calculate_centroid coords =
     (let num_points = length coords;
          (total_x, total_y) = centroid_loop coords (0, 0)
      in if num_points = 0 then Inl ZeroDivisionError
         else Inr [total_x / real num_points, total_y / real num_points])"

text \<open>
  A GeoJSON geometry: \<open>coordinates\<close> is a list of rings for a polygon and a flat list
  of numbers for a point. A feature carries its \<open>id\<close>, \<open>properties.name_en\<close> and
  its geometry.
\<close>

datatype coordinates = Rings "(real \<times> real) list list" | Position "real list"

record geometry =
  gtype :: string
  gcoordinates :: coordinates

record feature =
  fid :: string
  name_en :: string
  fgeometry :: geometry

text \<open>
  \<open>geometry['coordinates'][0]\<close> raises \<open>IndexError\<close> on an empty list; on a point
  it is a number, and \<open>len\<close> of a number raises \<open>TypeError\<close>.
\<close>

definition feature_centroid :: "feature \<Rightarrow> py_error + feature" where
  "feature_centroid f =
     (case gcoordinates (fgeometry f) of
        Rings [] \<Rightarrow> Inl IndexError
      | Rings (ring # _) \<Rightarrow>
          (case calculate_centroid ring of
             Inl e \<Rightarrow> Inl e
           | Inr centroid \<Rightarrow>
               Inr (f\<lparr>fgeometry := \<lparr>gtype = ''Point'', gcoordinates = Position centroid\<rparr>\<rparr>))
      | Position [] \<Rightarrow> Inl IndexError
      | Position (_ # _) \<Rightarrow> Inl TypeError)"

fun calculate_and_append_centroids :: "feature list \<Rightarrow> py_error + feature list" where
  "calculate_and_append_centroids [] = Inr []"
| "calculate_and_append_centroids (f # fs) =
     (case feature_centroid f of
        Inl e \<Rightarrow> Inl e
      | Inr f' \<Rightarrow>
          (case calculate_and_append_centroids fs of
             Inl e \<Rightarrow> Inl e
           | Inr fs' \<Rightarrow> Inr (f' # fs')))"

section \<open>Seismic event queries\<close>

text \<open>
  A point in time (a pandas \<open>Timestamp\<close>) is the number of nanoseconds since
  1970-01-01 00:00 UTC; \<open>Timedelta.days\<close> is the quotient by one day, rounded towards
  minus infinity as \<open>div\<close> on \<open>int\<close> is. pandas keeps these counts in 64 bits, with
  the least value standing for null: the difference of two timestamps is computed with
  a check, and raises \<open>OverflowError\<close> when it does not fit.
\<close>

type_synonym timestamp = int

definition day_ns :: int where
  "day_ns = 86400000000000"

definition timedelta_days :: "int \<Rightarrow> int" where
  "timedelta_days td = td div day_ns"

definition fits_int64 :: "int \<Rightarrow> bool" where
  "fits_int64 td = (- 9223372036854775808 < td \<and> td \<le> 9223372036854775807)"

text \<open>
  What \<open>requests.get\<close> does: it raises \<open>ConnectionError\<close>, it raises another
  \<open>RequestException\<close> (a read timeout), or it returns a response with a status code and
  a body. The body of the event catalogue is pipe-delimited text; it is modelled as the
  rows \<open>pd.read_csv\<close> parses it into, with the columns the code reads.
\<close>

datatype 'a http_outcome = ConnectionError | ReadTimeout | Response int 'a

record quake_event =
  event_id :: string
  qtime :: timestamp
  latitude :: real
  longitude :: real

record quake_row = quake_event +
  Time_Delta :: int
  quake_colour :: string

record quake_table =
  qcolumns :: "string list"
  qrows :: "quake_row list"

text \<open>
  \<open>np.select(conditions, values)\<close> for one row: the value of the first condition that
  holds, and the default \<open>0\<close> (the string \<open>'0'\<close> in an array of strings) when none
  does.
\<close>

fun np_select :: "bool list \<Rightarrow> string list \<Rightarrow> string" where
  "np_select (c # conditions) (v # vals) = (if c then v else np_select conditions vals)"
| "np_select _ _ = ''0''"

definition event_time_delta :: "timestamp \<Rightarrow> quake_event \<Rightarrow> int" where
  "event_time_delta now e = - timedelta_days (qtime e - now)"

definition colour_code :: "int \<Rightarrow> string" where
  "colour_code td =
     np_select
       [td \<le> 2,
        td > 2 \<and> td \<le> 7,
        td > 7 \<and> td \<le> 31,
        td > 31]
       [''red'', ''orange'', ''yellow'', ''white'']"

definition colour_row :: "timestamp \<Rightarrow> quake_event \<Rightarrow> quake_row" where
  "colour_row now e =
     quake_event.extend e
       \<lparr>Time_Delta = event_time_delta now e,
        quake_colour = colour_code (event_time_delta now e)\<rparr>"

definition parsed_columns :: "string list" where
  "parsed_columns = [''#EventID'', ''Time'', ''Latitude'', ''Longitude'']"

text \<open>\<open>df = pd.DataFrame(); df['#EventID'] = None\<close>: one column, no row.\<close>

definition empty_event_table :: quake_table where
  "empty_event_table = \<lparr>qcolumns = [''#EventID''], qrows = []\<rparr>"

text \<open>
  The marker colours of a parsed frame. \<open>pd.to_datetime(df['Time'])\<close> of a column
  with no row has no time zone, and subtracting the zone-aware \<open>now\<close> from it raises
  \<open>TypeError\<close>; with rows the times carry their zone, and the subtraction raises
  \<open>OverflowError\<close> when a difference does not fit in 64 bits. Neither error is caught
  by the callers, which handle \<open>ConnectionError\<close> only.
\<close>

definition colour_frame :: "timestamp \<Rightarrow> quake_event list \<Rightarrow> py_error + quake_table" where
  "colour_frame now events =
     (if events = [] then Inl TypeError
      else if \<not> list_all (\<lambda>e. fits_int64 (qtime e - now)) events then Inl OverflowError
      else Inr \<lparr>qcolumns = parsed_columns @ [''Time_Delta'', ''quake_colour''],
                qrows = map (colour_row now) events\<rparr>)"

text \<open>
  \<open>get_latest_quakes_chis_fsdn\<close>. The clock and the outcome of the request are
  arguments. \<open>df\<close> is assigned only in the branch for status 200 and in the handler of
  \<open>ConnectionError\<close>, so on any other status \<open>return df\<close> reads an unbound local.
  \<open>df.sort_values(by='#EventID')\<close> returns a sorted copy that is dropped.
\<close>

definition get_latest_quakes_chis_fsdn ::
  "timestamp \<Rightarrow> quake_event list http_outcome \<Rightarrow> py_error + quake_table" where
  "get_latest_quakes_chis_fsdn now outcome =
     (case outcome of
        ConnectionError \<Rightarrow> Inr empty_event_table
      | ReadTimeout \<Rightarrow> Inl RequestException
      | Response status_code events \<Rightarrow>
          if status_code = 200
          then colour_frame now events
          else Inl UnboundLocalError)"

text \<open>
  \<open>get_latest_quakes_chis_fsdn_site\<close>. \<open>target_centres[initial_target]\<close> raises
  \<open>KeyError\<close> before the request is made. Here \<open>df\<close> starts as an empty frame, which is
  what is returned on a status other than 200. On status 200 the colours are computed
  on the rows inside the bounding box.
\<close>

definition in_bounds :: "real \<Rightarrow> real \<Rightarrow> quake_event \<Rightarrow> bool" where
  "in_bounds center_latitude center_longitude e =
     (latitude e \<ge> center_latitude - 1 \<and>
      latitude e \<le> center_latitude + 1 \<and>
      longitude e \<ge> center_longitude - 2 \<and>
      longitude e \<le> center_longitude + 2)"

definition get_latest_quakes_chis_fsdn_site ::
  "timestamp \<Rightarrow> string \<Rightarrow> (string \<rightharpoonup> real \<times> real) \<Rightarrow>
   quake_event list http_outcome \<Rightarrow> py_error + quake_table" where
  "get_latest_quakes_chis_fsdn_site now initial_target target_centres outcome =
     (case target_centres initial_target of
        None \<Rightarrow> Inl KeyError
      | Some (center_latitude, center_longitude) \<Rightarrow>
          (case outcome of
             ConnectionError \<Rightarrow> Inr empty_event_table
           | ReadTimeout \<Rightarrow> Inl RequestException
           | Response status_code events \<Rightarrow>
               if status_code = 200
               then colour_frame now
                      (filter (in_bounds center_latitude center_longitude) events)
               else Inr \<lparr>qcolumns = [], qrows = []\<rparr>))"

text \<open>The colour of the spec, by age in whole days.\<close>

definition spec_colour :: "int \<Rightarrow> string" where
  "spec_colour age =
     (if age \<le> 2 then ''red''
      else if 3 \<le> age \<and> age \<le> 7 then ''orange''
      else if 8 \<le> age \<and> age \<le> 31 then ''yellow''
      else ''white'')"

section \<open>Reading the pair tables\<close>

text \<open>
  One row of a coherence or InSAR-pair file after \<open>pd.read_csv\<close> has parsed its two
  date columns: the two dates and a value that may be null. The files on disk are a
  partial map from paths to parsed rows; \<open>pd.read_csv\<close> of a path that is not there
  raises \<open>FileNotFoundError\<close>.
\<close>

record pair_record =
  first_date :: timestamp
  second_date :: timestamp
  pvalue :: "real option"

definition wrong_order :: "pair_record \<Rightarrow> bool" where
  "wrong_order r = (second_date r < first_date r \<and> pvalue r \<noteq> None)"

definition read_coherence ::
  "(string \<rightharpoonup> pair_record list) \<Rightarrow> string option \<Rightarrow> py_error + pair_record list option" where
  "read_coherence files coherence_csv =
     (case coherence_csv of
        None \<Rightarrow> Inr None
      | Some path \<Rightarrow>
          (case files path of
             None \<Rightarrow> Inl FileNotFoundError
           | Some coh \<Rightarrow>
               if list_ex wrong_order coh then Inl RuntimeError else Inr (Some coh)))"

definition read_insar_pair ::
  "(string \<rightharpoonup> pair_record list) \<Rightarrow> string option \<Rightarrow> py_error + pair_record list option" where
  "read_insar_pair files insar_pair_csv =
     (case insar_pair_csv of
        None \<Rightarrow> Inr None
      | Some path \<Rightarrow>
          (case files path of
             None \<Rightarrow> Inr None
           | Some insar \<Rightarrow>
               if list_ex wrong_order insar then Inl RuntimeError else Inr (Some insar)))"

section \<open>The matrix reshaper\<close>

text \<open>
  The long-form table that \<open>plot_coherence\<close> hands to the reshaper: a pair record
  with the column \<open>delta_days\<close> added, the whole days from \<open>first_date\<close> to
  \<open>second_date\<close>. The subtraction of the two date columns raises \<open>OverflowError\<close>
  when the difference of some row does not fit in 64 bits.
\<close>

record long_record = pair_record +
  delta_days :: int

definition with_delta_days :: "pair_record list \<Rightarrow> py_error + long_record list" where
  "with_delta_days long =
     (if \<not> list_all (\<lambda>r. fits_int64 (second_date r - first_date r)) long
      then Inl OverflowError
      else Inr (map (\<lambda>r. pair_record.extend r
                        \<lparr>delta_days = timedelta_days (second_date r - first_date r)\<rparr>) long))"

text \<open>
  A wide frame: the row labels (\<open>delta_days\<close>) and the column labels
  (\<open>second_date\<close>) in their order, and the cell at a pair of labels, \<open>None\<close> for
  null (NaN or NaT). Only the cells at labels of the frame belong to it. The frames of
  this module come from \<open>pivot\<close>, so no label occurs twice.
\<close>

record 'v wide =
  windex :: "int list"
  wcolumns :: "timestamp list"
  wcell :: "int \<Rightarrow> timestamp \<Rightarrow> 'v option"

text \<open>
  \<open>DataFrame.pivot(index='delta_days', columns='second_date', values=...)\<close>: it
  raises \<open>ValueError\<close> when two rows share their pair of labels; otherwise both axes
  hold the distinct labels in ascending order, and a cell holds the value of the one
  row with these labels, or null when there is none.
\<close>

definition pivot :: "(long_record \<Rightarrow> 'v option) \<Rightarrow> long_record list \<Rightarrow> py_error + 'v wide" where
  "pivot vals long =
     (if \<not> distinct (map (\<lambda>r. (delta_days r, second_date r)) long) then Inl ValueError
      else Inr
        \<lparr>windex = sort (remdups (map delta_days long)),
         wcolumns = sort (remdups (map second_date long)),
         wcell = (\<lambda>d c.
           case find (\<lambda>r. delta_days r = d \<and> second_date r = c) long of
             None \<Rightarrow> None
           | Some r \<Rightarrow> vals r)\<rparr>)"

text \<open>
  \<open>wide.loc[k, :] = np.NaN\<close>: the row labelled \<open>k\<close> becomes null if it is there;
  otherwise a null row with this label is appended, also to a frame that has no
  column. The assignment itself does not raise.
\<close>

definition loc_set_row_nan :: "int \<Rightarrow> 'v wide \<Rightarrow> 'v wide" where
  "loc_set_row_nan k w =
     (if k \<in> set (windex w)
      then w\<lparr>wcell := (\<lambda>d c. if d = k then None else wcell w d c)\<rparr>
      else w\<lparr>windex := windex w @ [k],
              wcell := (\<lambda>d c. if d = k then None else wcell w d c)\<rparr>)"

definition sort_index :: "'v wide \<Rightarrow> 'v wide" where
  "sort_index w = w\<lparr>windex := sort (windex w)\<rparr>"

text \<open>A function applied to every non-null cell, as \<open>DataFrame.map\<close> applies one
  that passes null through.\<close>

definition map_wide :: "('a \<Rightarrow> 'b) \<Rightarrow> 'a wide \<Rightarrow> 'b wide" where
  "map_wide f w =
     \<lparr>windex = windex w, wcolumns = wcolumns w,
      wcell = (\<lambda>d c. map_option f (wcell w d c))\<rparr>"

text \<open>
  \<open>DataFrame.round(2)\<close> is \<open>rint(x * 100) / 100\<close>, with \<open>rint\<close> rounding to the
  nearest integer and a tie to the even one; null stays null. Values are modelled as
  real numbers.
\<close>

definition rint :: "real \<Rightarrow> int" where
  "rint x =
     (let f = \<lfloor>x\<rfloor>; d = x - of_int f
      in if d < 1 / 2 then f
         else if d > 1 / 2 then f + 1
         else if even f then f else f + 1)"

definition round2 :: "real \<Rightarrow> real" where
  "round2 x = of_int (rint (x * 100)) / 100"

definition round_wide :: "real wide \<Rightarrow> real wide" where
  "round_wide w = map_wide round2 w"

text \<open>
  The labels of the rows, and of the columns, that hold at least one non-null cell:
  where \<open>max(axis=...)\<close> is not null, and what \<open>dropna(how='all')\<close> keeps.
\<close>

definition valid_rows :: "'v wide \<Rightarrow> int list" where
  "valid_rows w =
     filter (\<lambda>d. list_ex (\<lambda>c. wcell w d c \<noteq> None) (wcolumns w)) (windex w)"

definition valid_cols :: "'v wide \<Rightarrow> timestamp list" where
  "valid_cols w =
     filter (\<lambda>c. list_ex (\<lambda>d. wcell w d c \<noteq> None) (windex w)) (wcolumns w)"

definition first_valid_index :: "'a list \<Rightarrow> 'a option" where
  "first_valid_index labels = (case labels of [] \<Rightarrow> None | l # _ \<Rightarrow> Some l)"

definition last_valid_index :: "'a list \<Rightarrow> 'a option" where
  "last_valid_index labels = (if labels = [] then None else Some (last labels))"

text \<open>
  The trimming of \<open>pivot_and_clean\<close>. When no cell is valid the three bounds are
  \<open>None\<close>: the comparison of the integer row labels with \<open>None\<close> is false
  everywhere, and the comparison of the datetime column labels with \<open>None\<close>, which
  comes next, raises \<open>TypeError\<close>.
\<close>

definition trim_coh :: "'v wide \<Rightarrow> py_error + 'v wide" where
  "trim_coh coh_wide =
     (let cw_last_col = last_valid_index (valid_rows coh_wide);
          cw_first_ind = first_valid_index (valid_cols coh_wide);
          cw_last_ind = last_valid_index (valid_cols coh_wide);
          rows = (case cw_last_col of
                    None \<Rightarrow> []
                  | Some l \<Rightarrow> filter (\<lambda>d. d \<ge> 0 \<and> d \<le> l) (windex coh_wide))
      in case (cw_first_ind, cw_last_ind) of
           (Some f, Some l) \<Rightarrow>
             Inr (coh_wide\<lparr>windex := rows,
                           wcolumns := filter (\<lambda>c. c \<ge> f \<and> c \<le> l) (wcolumns coh_wide)\<rparr>)
         | _ \<Rightarrow> Inl TypeError)"

definition pivot_and_clean :: "long_record list \<Rightarrow> py_error + real wide" where
  "pivot_and_clean coh_long =
     (case pivot pvalue coh_long of
        Inl e \<Rightarrow> Inl e
      | Inr coh_wide \<Rightarrow>
          trim_coh (round_wide (sort_index (loc_set_row_nan 0 coh_wide))))"

text \<open>
  The trimming of \<open>pivot_and_clean_insar\<close>. \<open>index[0]\<close> of a frame from which
  \<open>dropna\<close> removed every row raises \<open>IndexError\<close>. The label slices
  \<open>.loc[a:b, c:d]\<close> are taken on axes in ascending order, where they keep the labels
  from \<open>a\<close> to \<open>b\<close> and from \<open>c\<close> to \<open>d\<close>, both ends included.
\<close>

definition trim_insar :: "'v wide \<Rightarrow> py_error + 'v wide" where
  "trim_insar insar_wide =
     (case (first_valid_index (valid_rows insar_wide),
            last_valid_index (valid_rows insar_wide),
            first_valid_index (valid_cols insar_wide),
            last_valid_index (valid_cols insar_wide)) of
        (Some first_valid_row_index, Some last_valid_row_index,
         Some first_valid_col_index, Some last_valid_col_index) \<Rightarrow>
          Inr (insar_wide
                \<lparr>windex := filter (\<lambda>d. first_valid_row_index \<le> d \<and> d \<le> last_valid_row_index)
                             (windex insar_wide),
                 wcolumns := filter (\<lambda>c. first_valid_col_index \<le> c \<and> c \<le> last_valid_col_index)
                               (wcolumns insar_wide)\<rparr>)
      | _ \<Rightarrow> Inl IndexError)"

definition pivot_and_clean_insar :: "long_record list \<Rightarrow> py_error + real wide" where
  "pivot_and_clean_insar insar_long =
     (case pivot pvalue insar_long of
        Inl e \<Rightarrow> Inl e
      | Inr insar_wide \<Rightarrow>
          trim_insar (round_wide (sort_index (loc_set_row_nan 0 insar_wide))))"

subsection \<open>The reference-date matrix\<close>

text \<open>
  \<open>strftime('%b %d, %Y')\<close> of a timestamp: the civil date of its day in the
  proleptic Gregorian calendar, as the abbreviated English month name, the day of the
  month on two digits and the year on four.
\<close>

definition civil_from_days :: "int \<Rightarrow> int \<times> int \<times> int" where
  "civil_from_days days =
     (let z = days + 719468;
          era = z div 146097;
          doe = z mod 146097;
          yoe = (doe - doe div 1460 + doe div 36524 - doe div 146096) div 365;
          doy = doe - (365 * yoe + yoe div 4 - yoe div 100);
          mp = (5 * doy + 2) div 153;
          d = doy - (153 * mp + 2) div 5 + 1;
          m = (if mp < 10 then mp + 3 else mp - 9);
          y = yoe + era * 400 + (if m \<le> 2 then 1 else 0)
      in (y, m, d))"

definition digit_char :: "int \<Rightarrow> char" where
  "digit_char n = char_of (48 + n mod 10)"

definition month_abbr :: "int \<Rightarrow> string" where
  "month_abbr m =
     [''Jan'', ''Feb'', ''Mar'', ''Apr'', ''May'', ''Jun'',
      ''Jul'', ''Aug'', ''Sep'', ''Oct'', ''Nov'', ''Dec''] ! nat (m - 1)"

definition strftime_b_d_Y :: "timestamp \<Rightarrow> string" where
  "strftime_b_d_Y t =
     (case civil_from_days (t div day_ns) of
        (y, m, d) \<Rightarrow>
          month_abbr m @ '' '' @ [digit_char (d div 10), digit_char d] @ '', '' @
          [digit_char (y div 1000), digit_char (y div 100), digit_char (y div 10),
           digit_char y])"

text \<open>
  \<open>pivot_and_clean_dates\<close>: the records with \<open>second_date < first_date\<close> are
  dropped, \<open>first_date\<close> is pivoted and formatted, and the columns are cut down to
  the sorted intersection with the columns of \<open>coh_wide\<close>.
\<close>

definition pivot_and_clean_dates ::
  "long_record list \<Rightarrow> 'v wide \<Rightarrow> py_error + string wide" where
  "pivot_and_clean_dates coh_long coh_wide =
     (let coh_long = filter (\<lambda>r. \<not> second_date r < first_date r) coh_long
      in case pivot (\<lambda>r. Some (first_date r)) coh_long of
           Inl e \<Rightarrow> Inl e
         | Inr date_wide \<Rightarrow>
             (let date_wide = map_wide strftime_b_d_Y date_wide;
                  common_cols =
                    sort (remdups (filter (\<lambda>c. c \<in> set (wcolumns coh_wide))
                                          (wcolumns date_wide)))
              in Inr (date_wide\<lparr>wcolumns := common_cols\<rparr>)))"

text \<open>The non-null cells of a frame, row by row, with their labels.\<close>

definition nonnull_cells :: "'v wide \<Rightarrow> (int \<times> timestamp \<times> 'v) list" where
  "nonnull_cells w =
     concat (map (\<lambda>d. concat (map (\<lambda>c. case wcell w d c of
                                            None \<Rightarrow> []
                                          | Some v \<Rightarrow> [(d, c, v)]) (wcolumns w)))
                 (windex w))"

subsection \<open>The reshaping done by plot_coherence\<close>

text \<open>
  Of \<open>plot_coherence\<close> the part that builds the matrices of the coherence heatmap:
  \<open>delta_days\<close> is computed, then the value matrix, then the reference-date matrix
  from the same table and the value matrix.
\<close>

definition plot_coherence_matrices ::
  "pair_record list \<Rightarrow> py_error + (real wide \<times> string wide)" where
  "plot_coherence_matrices coh_long =
     (case with_delta_days coh_long of
        Inl e \<Rightarrow> Inl e
      | Inr coh_long \<Rightarrow>
          (case pivot_and_clean coh_long of
             Inl e \<Rightarrow> Inl e
           | Inr coh_wide \<Rightarrow>
               (case pivot_and_clean_dates coh_long coh_wide of
                  Inl e \<Rightarrow> Inl e
                | Inr date_wide \<Rightarrow> Inr (coh_wide, date_wide))))"

subsection \<open>Reading a result\<close>

text \<open>The row labels, the column labels and the non-null cells of a returned frame;
  \<open>None\<close> when the call raised.\<close>

definition index_of :: "py_error + 'v wide \<Rightarrow> int list option" where
  "index_of r = (case r of Inl e \<Rightarrow> None | Inr w \<Rightarrow> Some (windex w))"

definition columns_of :: "py_error + 'v wide \<Rightarrow> timestamp list option" where
  "columns_of r = (case r of Inl e \<Rightarrow> None | Inr w \<Rightarrow> Some (wcolumns w))"

definition cells_of :: "py_error + 'v wide \<Rightarrow> (int \<times> timestamp \<times> 'v) list option" where
  "cells_of r = (case r of Inl e \<Rightarrow> None | Inr w \<Rightarrow> Some (nonnull_cells w))"

definition coh_wide_of :: "py_error + ('a wide \<times> 'b wide) \<Rightarrow> py_error + 'a wide" where
  "coh_wide_of r = (case r of Inl e \<Rightarrow> Inl e | Inr (coh_wide, date_wide) \<Rightarrow> Inr coh_wide)"

definition date_wide_of :: "py_error + ('a wide \<times> 'b wide) \<Rightarrow> py_error + 'b wide" where
  "date_wide_of r = (case r of Inl e \<Rightarrow> Inl e | Inr (coh_wide, date_wide) \<Rightarrow> Inr date_wide)"

text \<open>A call on the value another call has returned; when the first call raised,
  its exception is what comes out.\<close>

definition and_then :: "py_error + 'a \<Rightarrow> ('a \<Rightarrow> py_error + 'b) \<Rightarrow> py_error + 'b" where
  "and_then r f = (case r of Inl e \<Rightarrow> Inl e | Inr x \<Rightarrow> f x)"

text \<open>The trimming applied once more to a returned frame.\<close>

definition retrim_coh :: "py_error + 'v wide \<Rightarrow> py_error + 'v wide" where
  "retrim_coh r = (case r of Inl e \<Rightarrow> Inl e | Inr w \<Rightarrow> trim_coh w)"

definition retrim_insar :: "py_error + 'v wide \<Rightarrow> py_error + 'v wide" where
  "retrim_insar r = (case r of Inl e \<Rightarrow> Inl e | Inr w \<Rightarrow> trim_insar w)"

section \<open>The summary table\<close>

text \<open>
  A cell of the summary table holds a string, a boolean or null. The table is returned
  as the three selected columns and its rows.
\<close>

datatype cell = Str string | Bool bool | Null

record summary_table =
  scolumns :: "string list"
  srows :: "(cell \<times> cell \<times> cell) list"

text \<open>
  What \<open>build_summary_table\<close> reads besides its argument: the rows (\<open>Site\<close>,
  \<open>Unrest\<close>) of \<open>app/Data/unrest_table.csv\<close>, or nothing when the file is not
  there; the outcome of the request \<open>/targets/{site}\<close> for each site, whose body is
  the decoded JSON object or nothing when the body is not JSON; and
  \<open>date_difference\<close>, the days from a \<open>%Y-%m-%d\<close> date to today, which raises
  \<open>ValueError\<close> on a string \<open>strptime\<close> rejects.
\<close>

record target_info =
  last_slc_datetime :: "string option"
  last_slc_beam_mode :: string

record summary_env =
  unrest_table_csv :: "(string \<times> bool) list option"
  target_api :: "string \<Rightarrow> target_info option http_outcome"
  date_difference :: "string \<Rightarrow> py_error + int"

text \<open>
  The frame \<open>targets_df\<close>: per row the columns \<open>id\<close>, \<open>Site\<close>, \<open>Unrest\<close> and
  \<open>Latest SAR Image\<close>. The last column is created by the first assignment to one of
  its cells; \<open>has_latest\<close> tells whether it exists.
\<close>

record target_row =
  tr_id :: string
  tr_site :: string
  tr_unrest :: cell
  tr_latest :: cell

record targets_frame =
  trows :: "target_row list"
  has_latest :: bool

text \<open>
  \<open>pd.json_normalize(targs_geojson, record_path=['features'])\<close>: for \<open>None\<close>, which is
  neither a list, a dict nor an iterable, it raises \<open>NotImplementedError\<close>. With no
  feature the frame has no column, and \<open>targets_df['id']\<close> raises \<open>KeyError\<close>.
\<close>

definition json_normalize_features :: "feature list option \<Rightarrow> py_error + feature list" where
  "json_normalize_features targs_geojson =
     (case targs_geojson of
        None \<Rightarrow> Inl NotImplementedError
      | Some features \<Rightarrow> if features = [] then Inl KeyError else Inr features)"

text \<open>\<open>str.contains('^A|Edgecumbe')\<close>: the id starts with \<open>A\<close> or has
  \<open>Edgecumbe\<close> somewhere in it.\<close>

fun str_contains :: "string \<Rightarrow> string \<Rightarrow> bool" where
  "str_contains pat [] = (pat = [])"
| "str_contains pat (c # s) = (take (length pat) (c # s) = pat \<or> str_contains pat s)"

definition id_selected :: "string \<Rightarrow> bool" where
  "id_selected i = (take 1 i = ''A'' \<or> str_contains ''Edgecumbe'' i)"

text \<open>\<open>pd.merge(targets_df, unrest_table_df, on='Site', how='left')\<close>: the rows of the
  left frame in their order, once per matching row of the unrest table, and once with a
  null \<open>Unrest\<close> when no row matches.\<close>

definition merge_unrest :: "(string \<times> bool) list \<Rightarrow> feature list \<Rightarrow> target_row list" where
  "merge_unrest unrest_table_df targets =
     concat (map (\<lambda>f.
       let matches = filter (\<lambda>u. fst u = name_en f) unrest_table_df
       in if matches = []
          then [\<lparr>tr_id = fid f, tr_site = name_en f, tr_unrest = Null, tr_latest = Null\<rparr>]
          else map (\<lambda>u. \<lparr>tr_id = fid f, tr_site = name_en f, tr_unrest = Bool (snd u),
                          tr_latest = Null\<rparr>) matches) targets)"

function str_nat :: "nat \<Rightarrow> string" where
  "str_nat n =
     (if n < 10 then [digit_char (int n)]
      else str_nat (n div 10) @ [digit_char (int n)])"
  by pat_completeness auto
termination
  by (relation "measure (\<lambda>n. n)") auto

definition str_int :: "int \<Rightarrow> string" where
  "str_int n = (if n < 0 then ''-'' @ str_nat (nat (- n)) else str_nat (nat n))"

definition set_latest :: "nat \<Rightarrow> cell \<Rightarrow> targets_frame \<Rightarrow> targets_frame" where
  "set_latest site_index v df =
     \<lparr>trows = (trows df)[site_index := (trows df ! site_index)\<lparr>tr_latest := v\<rparr>],
      has_latest = True\<rparr>"

text \<open>The position of the first row with a given id; \<open>index[0]\<close> raises
  \<open>IndexError\<close> when there is none.\<close>

fun first_index :: "string \<Rightarrow> target_row list \<Rightarrow> nat option" where
  "first_index site [] = None"
| "first_index site (r # rs) =
     (if tr_id r = site then Some 0 else map_option Suc (first_index site rs))"

text \<open>
  One round of the loop over the sites. Only \<open>ConnectionError\<close> is caught; a body
  that is not JSON makes \<open>json.loads\<close> raise a \<open>ValueError\<close>. The cell is written only
  when \<open>last_slc_datetime\<close> is a string.
\<close>

definition site_step :: "summary_env \<Rightarrow> string \<Rightarrow> targets_frame \<Rightarrow> py_error + targets_frame" where
  "site_step env site df =
     (case first_index site (trows df) of
        None \<Rightarrow> Inl IndexError
      | Some site_index \<Rightarrow>
          (case target_api env site of
             ConnectionError \<Rightarrow> Inr (set_latest site_index Null df)
           | ReadTimeout \<Rightarrow> Inl RequestException
           | Response status_code body \<Rightarrow>
               (case body of
                  None \<Rightarrow> Inl ValueError
                | Some response_geojson \<Rightarrow>
                    (case last_slc_datetime response_geojson of
                       None \<Rightarrow> Inr df
                     | Some slc_datetime \<Rightarrow>
                         (let last_slc_date = py_slice 0 10 slc_datetime
                          in case date_difference env last_slc_date of
                               Inl e \<Rightarrow> Inl e
                             | Inr days \<Rightarrow>
                                 Inr (set_latest site_index
                                       (Str (last_slc_beam_mode response_geojson @ '' - '' @
                                             last_slc_date @ '' ('' @ str_int days @
                                             '' days ago)''))
                                       df))))))"

fun site_loop :: "summary_env \<Rightarrow> string list \<Rightarrow> targets_frame \<Rightarrow> py_error + targets_frame" where
  "site_loop env [] df = Inr df"
| "site_loop env (site # sites) df =
     (case site_step env site df of
        Inl e \<Rightarrow> Inl e
      | Inr df' \<Rightarrow> site_loop env sites df')"

text \<open>The body of the outer \<open>try\<close>, up to \<open>sort_values('id')\<close>.\<close>

definition summary_try_body ::
  "summary_env \<Rightarrow> feature list option \<Rightarrow> py_error + targets_frame" where
  "summary_try_body env targs_geojson =
     (case json_normalize_features targs_geojson of
        Inl e \<Rightarrow> Inl e
      | Inr features \<Rightarrow>
          (let targets = filter (\<lambda>f. id_selected (fid f)) features
           in case unrest_table_csv env of
                None \<Rightarrow> Inl FileNotFoundError
              | Some unrest_table_df \<Rightarrow>
                  (let targets_df =
                         \<lparr>trows = merge_unrest unrest_table_df targets, has_latest = False\<rparr>
                   in case site_loop env (map tr_id (trows targets_df)) targets_df of
                        Inl e \<Rightarrow> Inl e
                      | Inr targets_df \<Rightarrow>
                          Inr (targets_df\<lparr>trows := sort_key tr_id (trows targets_df)\<rparr>))))"

text \<open>The frame built by the handler. It has no \<open>id\<close> column; the field \<open>tr_id\<close>
  of its row is empty and is not read again.\<close>

definition sentinel_frame :: targets_frame where
  "sentinel_frame =
     \<lparr>trows = [\<lparr>tr_id = [], tr_site = ''API Connection Error'',
                 tr_unrest = Str ''API Connection Error'',
                 tr_latest = Str ''API Connection Error''\<rparr>],
      has_latest = True\<rparr>"

text \<open>
  \<open>build_summary_table\<close>. Only \<open>NotImplementedError\<close> is caught, and replaced by the
  one-row frame with the columns \<open>Site\<close>, \<open>Latest SAR Image\<close> and \<open>Unrest\<close>. The
  selection of the three columns at the end raises \<open>KeyError\<close> when the column
  \<open>Latest SAR Image\<close> was never created.
\<close>

definition select_summary :: "targets_frame \<Rightarrow> py_error + summary_table" where
  "select_summary targets_df =
     (if has_latest targets_df
      then Inr \<lparr>scolumns = [''Site'', ''Latest SAR Image'', ''Unrest''],
                srows = map (\<lambda>r. (Str (tr_site r), tr_latest r, tr_unrest r))
                          (trows targets_df)\<rparr>
      else Inl KeyError)"

definition build_summary_table ::
  "summary_env \<Rightarrow> feature list option \<Rightarrow> py_error + summary_table" where
  "build_summary_table env targs_geojson =
     (case summary_try_body env targs_geojson of
        Inl NotImplementedError \<Rightarrow> select_summary sentinel_frame
      | Inl e \<Rightarrow> Inl e
      | Inr targets_df \<Rightarrow> select_summary targets_df)"

section \<open>Properties of parse_dates\<close>

lemma py_slice_length: "length (py_slice i j s) = min (j - i) (length s - i)"
  by (simp add: py_slice_def)

lemma digits8_iff: "digits8 t \<longleftrightarrow> str_isdigit t \<and> length t = 8"
  by (auto simp: digits8_def str_isdigit_def list_all_iff)

lemma digits8_end_long: "digits8 (py_slice 12 20 s) \<Longrightarrow> 20 \<le> length s"
  by (simp add: digits8_def py_slice_length min_def split: if_splits)

lemma parse_dates_error_iff:
  "(\<exists>e. parse_dates s = Inl e) \<longleftrightarrow>
     length s < 19 \<or> \<not> digits8 (py_slice 0 8 s) \<or> \<not> digits8 (py_slice 12 20 s)"
  by (auto simp: parse_dates_def parse_dates_body_def Let_def digits8_iff
           split: sum.splits if_splits)

lemma parse_dates_error_is_ValueError: "parse_dates s = Inl e \<Longrightarrow> e = ValueError"
  by (auto simp: parse_dates_def split: sum.splits)

lemma length8_cases:
  assumes "length t = 8"
  obtains a b c d e f g h where "t = [a, b, c, d, e, f, g, h]"
proof -
  from assms have "length t = Suc (Suc (Suc (Suc (Suc (Suc (Suc (Suc 0)))))))"
    by simp
  then show thesis
    by (auto simp: length_Suc_conv intro: that)
qed

lemma format_date_chars:
  assumes "length t = 8"
  shows "format_date t =
    [t ! 0, t ! 1, t ! 2, t ! 3] @ ''/'' @ [t ! 4, t ! 5] @ ''/'' @ [t ! 6, t ! 7]"
proof -
  from assms obtain a b c d e f g h where "t = [a, b, c, d, e, f, g, h]"
    by (rule length8_cases)
  then show ?thesis
    by (simp add: format_date_def py_slice_def)
qed

lemma py_slice_nth: "i + k < length s \<Longrightarrow> k < j - i \<Longrightarrow> py_slice i j s ! k = s ! (i + k)"
  by (simp add: py_slice_def)

lemma parse_dates_ok:
  assumes a: "digits8 (py_slice 0 8 s)" and b: "digits8 (py_slice 12 20 s)"
  shows "parse_dates s =
       Inr ([s ! 0, s ! 1, s ! 2, s ! 3] @ ''/'' @ [s ! 4, s ! 5] @ ''/'' @ [s ! 6, s ! 7]
            @ '' - '' @
            [s ! 12, s ! 13, s ! 14, s ! 15] @ ''/'' @ [s ! 16, s ! 17] @ ''/'' @ [s ! 18, s ! 19])"
proof -
  have len: "20 \<le> length s"
    using b by (rule digits8_end_long)
  have la: "length (py_slice 0 8 s) = 8" and lb: "length (py_slice 12 20 s) = 8"
    using a b by (simp_all add: digits8_def)
  have na: "\<And>k. k < 8 \<Longrightarrow> py_slice 0 8 s ! k = s ! k"
    using len py_slice_nth [of 0 _ s 8] by simp
  have nb: "\<And>k. k < 8 \<Longrightarrow> py_slice 12 20 s ! k = s ! (12 + k)"
    using len py_slice_nth [of 12 _ s 20] by simp
  have "parse_dates s = Inr (format_date (py_slice 0 8 s) @ '' - '' @ format_date (py_slice 12 20 s))"
    using a b len by (simp add: parse_dates_def parse_dates_body_def Let_def digits8_iff)
  then show ?thesis
    by (simp add: format_date_chars [OF la] format_date_chars [OF lb] na nb)
qed

lemma parse_dates_separator:
  assumes "length sep = 4"
  shows "parse_dates (take 8 s @ sep @ drop 12 s) = parse_dates s"
proof (cases "12 \<le> length s")
  case True
  then have "py_slice 0 8 (take 8 s @ sep @ drop 12 s) = py_slice 0 8 s"
    and "py_slice 12 20 (take 8 s @ sep @ drop 12 s) = py_slice 12 20 s"
    and "length (take 8 s @ sep @ drop 12 s) = length s"
    using assms by (simp_all add: py_slice_def min_def)
  then show ?thesis
    by (simp add: parse_dates_def parse_dates_body_def)
next
  case False
  then have "length (take 8 s @ sep @ drop 12 s) < 19" and "length s < 19"
    using assms by simp_all
  then show ?thesis
    by (simp add: parse_dates_def parse_dates_body_def)
qed

text \<open>
  Claim C9. \<open>parse_dates\<close> raises exactly when the input has fewer than 19
  characters or one of the slices \<open>[0:8]\<close>, \<open>[12:20]\<close> is not an 8-character
  all-digit string, and what it raises is always a \<open>ValueError\<close>. When both slices
  are 8-digit strings it returns \<open>yyyy/mm/dd - yyyy/mm/dd\<close> built from the characters
  at positions 0 to 7 and 12 to 19; the four characters at positions 8 to 11 can be
  replaced by any others without changing the result, and no calendar check is made.
\<close>

theorem parse_dates_spec:
  "((\<exists>e. parse_dates s = Inl e) \<longleftrightarrow>
      length s < 19 \<or> \<not> digits8 (py_slice 0 8 s) \<or> \<not> digits8 (py_slice 12 20 s))
   \<and> (\<forall>e. parse_dates s = Inl e \<longrightarrow> e = ValueError)
   \<and> (digits8 (py_slice 0 8 s) \<and> digits8 (py_slice 12 20 s) \<longrightarrow>
        parse_dates s =
          Inr ([s ! 0, s ! 1, s ! 2, s ! 3] @ ''/'' @ [s ! 4, s ! 5] @ ''/'' @ [s ! 6, s ! 7]
               @ '' - '' @
               [s ! 12, s ! 13, s ! 14, s ! 15] @ ''/'' @ [s ! 16, s ! 17] @ ''/''
               @ [s ! 18, s ! 19]))
   \<and> (\<forall>sep. length sep = 4 \<longrightarrow> parse_dates (take 8 s @ sep @ drop 12 s) = parse_dates s)"
  using parse_dates_error_iff [of s] parse_dates_error_is_ValueError [of s]
    parse_dates_ok [of s] parse_dates_separator [of _ s]
  by blast

theorem parse_dates_spec_witness:
  "digits8 (py_slice 0 8 ''20220821_HH_20220914'')
   \<and> digits8 (py_slice 12 20 ''20220821_HH_20220914'')
   \<and> length ''/VV/'' = 4
   \<and> parse_dates ''20220821_HH_20220914'' = Inr ''2022/08/21 - 2022/09/14''
   \<and> parse_dates ''20220821/VV/20220914'' = Inr ''2022/08/21 - 2022/09/14''
   \<and> parse_dates ''20220821_HH_2022091'' = Inl ValueError
   \<and> parse_dates ''2022-08-21_HH_20220914'' = Inl ValueError"
proof -
  have d1: "digits8 (py_slice 0 8 ''20220821_HH_20220914'')"
    and d2: "digits8 (py_slice 12 20 ''20220821_HH_20220914'')"
    by (simp_all add: digits8_def py_slice_def isdigit_char_def)
  have e1: "\<not> digits8 (py_slice 12 20 ''20220821_HH_2022091'')"
    and e2: "\<not> digits8 (py_slice 0 8 ''2022-08-21_HH_20220914'')"
    by (simp_all add: digits8_def py_slice_def isdigit_char_def)
  note t = parse_dates_spec [of "''20220821_HH_20220914''"]
  have r: "parse_dates ''20220821_HH_20220914'' = Inr ''2022/08/21 - 2022/09/14''"
    using t d1 d2 by simp
  have "length ''/VV/'' = 4 \<longrightarrow>
        parse_dates (take 8 ''20220821_HH_20220914'' @ ''/VV/'' @ drop 12 ''20220821_HH_20220914'')
          = parse_dates ''20220821_HH_20220914''"
    using t [THEN conjunct2, THEN conjunct2, THEN conjunct2] by (rule spec)
  then have s: "parse_dates ''20220821/VV/20220914'' = Inr ''2022/08/21 - 2022/09/14''"
    using r by simp
  have x1: "parse_dates ''20220821_HH_2022091'' = Inl ValueError"
    using parse_dates_spec [of "''20220821_HH_2022091''"] e1 by blast
  have x2: "parse_dates ''2022-08-21_HH_20220914'' = Inl ValueError"
    using parse_dates_spec [of "''2022-08-21_HH_20220914''"] e2 by blast
  show ?thesis
    using d1 d2 r s x1 x2 by simp
qed

section \<open>Properties of calculate_centroid\<close>

lemma centroid_loop_sums:
  "centroid_loop coords (tx, ty) =
     (tx + sum_list (map fst coords), ty + sum_list (map snd coords))"
proof (induction coords arbitrary: tx ty)
  case Nil
  show ?case by simp
next
  case (Cons p coords)
  obtain x y where p: "p = (x, y)"
    by (cases p)
  show ?case
    by (simp add: p Cons.IH)
qed

lemma calculate_centroid_nonempty:
  assumes "coords \<noteq> []"
  shows "calculate_centroid coords =
     Inr [sum_list (map fst coords) / real (length coords),
          sum_list (map snd coords) / real (length coords)]"
  using assms by (simp add: calculate_centroid_def centroid_loop_sums Let_def)

lemma calculate_centroid_empty: "calculate_centroid [] = Inl ZeroDivisionError"
  by (simp add: calculate_centroid_def)

lemma append_centroids_empty_ring:
  assumes "gcoordinates (fgeometry f) = Rings ([] # rings)"
  shows "calculate_and_append_centroids (f # fs) = Inl ZeroDivisionError"
  using assms by (simp add: feature_centroid_def calculate_centroid_empty)

text \<open>
  Claim C10. For a non-empty list of points \<open>calculate_centroid\<close> returns the mean of
  the x values and the mean of the y values. It raises exactly on the empty list, where
  the division by the number of points is a division by zero; through
  \<open>calculate_and_append_centroids\<close> a polygon whose outer ring is empty raises the same
  error.
\<close>

theorem calculate_centroid_spec:
  "(coords \<noteq> [] \<longrightarrow>
      calculate_centroid coords =
        Inr [sum_list (map fst coords) / real (length coords),
             sum_list (map snd coords) / real (length coords)])
   \<and> ((\<exists>e. calculate_centroid coords = Inl e) \<longleftrightarrow> coords = [])
   \<and> (coords = [] \<longrightarrow> calculate_centroid coords = Inl ZeroDivisionError)
   \<and> (gcoordinates (fgeometry f) = Rings (coords # rings) \<and> coords = [] \<longrightarrow>
        calculate_and_append_centroids (f # fs) = Inl ZeroDivisionError)"
proof (cases "coords = []")
  case True
  then show ?thesis
    using calculate_centroid_empty append_centroids_empty_ring [of f rings fs] by simp
next
  case False
  then show ?thesis
    using calculate_centroid_nonempty [of coords] by simp
qed

theorem calculate_centroid_spec_witness:
  "[(0, 0), (4, 0), (4, 2), (0, 2)] \<noteq> ([] :: (real \<times> real) list)
   \<and> calculate_centroid [(0, 0), (4, 0), (4, 2), (0, 2)] = Inr [2, 1]
   \<and> calculate_centroid [] = Inl ZeroDivisionError
   \<and> calculate_and_append_centroids
        [\<lparr>fid = ''A001'', name_en = ''Garibaldi'',
          fgeometry = \<lparr>gtype = ''Polygon'', gcoordinates = Rings [[]]\<rparr>\<rparr>]
       = Inl ZeroDivisionError"
proof -
  have a: "calculate_centroid [(0, 0), (4, 0), (4, 2), (0, 2)] = Inr [2, 1]"
    using calculate_centroid_spec [of "[(0, 0), (4, 0), (4, 2), (0, 2)]"] by simp
  have b: "calculate_centroid [] = Inl ZeroDivisionError"
    using calculate_centroid_spec [of "[]"] by simp
  have c: "calculate_and_append_centroids
        [\<lparr>fid = ''A001'', name_en = ''Garibaldi'',
          fgeometry = \<lparr>gtype = ''Polygon'', gcoordinates = Rings [[]]\<rparr>\<rparr>]
       = Inl ZeroDivisionError"
    using calculate_centroid_spec [of "[]"
        "\<lparr>fid = ''A001'', name_en = ''Garibaldi'',
          fgeometry = \<lparr>gtype = ''Polygon'', gcoordinates = Rings [[]]\<rparr>\<rparr>" "[]" "[]"]
    by simp
  show ?thesis
    using a b c by simp
qed

section \<open>Properties of the readers\<close>

lemma wrong_order_ex:
  "list_ex wrong_order rows \<longleftrightarrow>
     (\<exists>r \<in> set rows. pvalue r \<noteq> None \<and> second_date r < first_date r)"
  by (auto simp: list_ex_iff wrong_order_def)

text \<open>
  Claim C2. For a coherence or InSAR-pair file that is there, reading it raises the
  data-integrity error (a \<open>RuntimeError\<close>) exactly when some record has a non-null
  value and \<open>second_date < first_date\<close>; when every record with a non-null value has
  \<open>second_date \<ge> first_date\<close>, the table is returned as read.
\<close>

theorem read_raises_on_wrong_order:
  assumes "files path = Some rows"
  shows "(read_coherence files (Some path) = Inl RuntimeError \<longleftrightarrow>
            (\<exists>r \<in> set rows. pvalue r \<noteq> None \<and> second_date r < first_date r))
       \<and> (read_insar_pair files (Some path) = Inl RuntimeError \<longleftrightarrow>
            (\<exists>r \<in> set rows. pvalue r \<noteq> None \<and> second_date r < first_date r))
       \<and> ((\<forall>r \<in> set rows. pvalue r \<noteq> None \<longrightarrow> second_date r \<ge> first_date r) \<longrightarrow>
            read_coherence files (Some path) = Inr (Some rows) \<and>
            read_insar_pair files (Some path) = Inr (Some rows))"
proof -
  have c: "read_coherence files (Some path) =
             (if list_ex wrong_order rows then Inl RuntimeError else Inr (Some rows))"
    using assms by (simp add: read_coherence_def)
  have i: "read_insar_pair files (Some path) =
             (if list_ex wrong_order rows then Inl RuntimeError else Inr (Some rows))"
    using assms by (simp add: read_insar_pair_def)
  show ?thesis
    unfolding c i wrong_order_ex by auto
qed

theorem read_raises_on_wrong_order_witness:
  "[''coh.csv'' \<mapsto> [\<lparr>first_date = 5, second_date = 3, pvalue = Some 0.5\<rparr>]] ''coh.csv''
     = Some [\<lparr>first_date = 5, second_date = 3, pvalue = Some 0.5\<rparr>]
   \<and> read_coherence [''coh.csv'' \<mapsto> [\<lparr>first_date = 5, second_date = 3, pvalue = Some 0.5\<rparr>]]
        (Some ''coh.csv'') = Inl RuntimeError
   \<and> read_insar_pair [''coh.csv'' \<mapsto> [\<lparr>first_date = 5, second_date = 3, pvalue = Some 0.5\<rparr>]]
        (Some ''coh.csv'') = Inl RuntimeError
   \<and> read_coherence
        [''ok.csv'' \<mapsto> [\<lparr>first_date = 3, second_date = 5, pvalue = Some 0.5\<rparr>,
                         \<lparr>first_date = 5, second_date = 3, pvalue = None\<rparr>]]
        (Some ''ok.csv'')
       = Inr (Some [\<lparr>first_date = 3, second_date = 5, pvalue = Some 0.5\<rparr>,
                    \<lparr>first_date = 5, second_date = 3, pvalue = None\<rparr>])
   \<and> read_insar_pair
        [''ok.csv'' \<mapsto> [\<lparr>first_date = 3, second_date = 5, pvalue = Some 0.5\<rparr>,
                         \<lparr>first_date = 5, second_date = 3, pvalue = None\<rparr>]]
        (Some ''ok.csv'')
       = Inr (Some [\<lparr>first_date = 3, second_date = 5, pvalue = Some 0.5\<rparr>,
                    \<lparr>first_date = 5, second_date = 3, pvalue = None\<rparr>])"
proof -
  let ?bad = "[\<lparr>first_date = 5, second_date = 3, pvalue = Some (0.5 :: real)\<rparr>]"
  let ?good = "[\<lparr>first_date = 3, second_date = 5, pvalue = Some (0.5 :: real)\<rparr>,
                \<lparr>first_date = 5, second_date = 3, pvalue = None\<rparr>]"
  have f1: "[''coh.csv'' \<mapsto> ?bad] ''coh.csv'' = Some ?bad"
    by simp
  have f2: "[''ok.csv'' \<mapsto> ?good] ''ok.csv'' = Some ?good"
    by simp
  show ?thesis
    using read_raises_on_wrong_order [of "[''coh.csv'' \<mapsto> ?bad]" "''coh.csv''" ?bad]
      read_raises_on_wrong_order [of "[''ok.csv'' \<mapsto> ?good]" "''ok.csv''" ?good] f1 f2
    by simp
qed

section \<open>Properties of the seismic event queries\<close>

lemma colour_code_spec: "colour_code td = spec_colour td"
  by (simp add: colour_code_def spec_colour_def)

lemma whole_days_between:
  fixes a d k :: int
  assumes "0 < k" and "(d - 1) * k < a" and "a \<le> d * k"
  shows "- ((- a) div k) = d"
proof -
  have "(- a) div k = - d"
  proof (rule int_div_pos_eq)
    show "- a = k * (- d) + (d * k - a)"
      by (simp add: algebra_simps)
    show "0 \<le> d * k - a"
      using assms by simp
    show "d * k - a < k"
      using assms by (simp add: algebra_simps)
  qed
  then show ?thesis
    by simp
qed

lemma event_time_delta_whole_days:
  assumes "(d - 1) * day_ns < now - qtime e" and "now - qtime e \<le> d * day_ns"
  shows "event_time_delta now e = d"
proof -
  have "0 < day_ns"
    by (simp add: day_ns_def)
  then have "- ((- (now - qtime e)) div day_ns) = d"
    using assms by (rule whole_days_between)
  then show ?thesis
    by (simp add: event_time_delta_def timedelta_days_def)
qed

lemma colour_row_fields:
  "Time_Delta (colour_row now e) = event_time_delta now e"
  "quake_colour (colour_row now e) = spec_colour (event_time_delta now e)"
  "event_id (colour_row now e) = event_id e"
  "qtime (colour_row now e) = qtime e"
  by (simp_all add: colour_row_def quake_event.extend_def colour_code_spec)

lemma colour_frame_rows:
  assumes "events \<noteq> []" and "\<forall>e \<in> set events. fits_int64 (qtime e - now)"
  shows "\<exists>df. colour_frame now events = Inr df
         \<and> map event_id (qrows df) = map event_id events
         \<and> map Time_Delta (qrows df) = map (event_time_delta now) events
         \<and> map quake_colour (qrows df) =
             map (\<lambda>e. spec_colour (event_time_delta now e)) events"
  using assms by (simp add: colour_frame_def list_all_iff colour_row_fields comp_def)

lemma colour_frame_empty: "colour_frame now [] = Inl TypeError"
  by (simp add: colour_frame_def)

text \<open>
  Claim C5. On a response with status 200 that holds at least one event (at least
  one inside the bounding box, for the site query), with times whose distance to the
  clock fits in 64 bits, both queries return a table with one row per such event, and
  the colour of a row is the colour of the spec at the event's age in whole days: red
  up to 2, orange from 3 to 7, yellow from 8 to 31, white above. The age is
  \<open>Time_Delta\<close>, the elapsed time counted in days with a started day counted whole.
  An event 1 day old is red, 5 days old orange, 15 days old yellow and 40 days old
  white, also as the only event of a response. With no event to colour, both queries
  raise \<open>TypeError\<close>.
\<close>

theorem quake_colour_by_age:
  "(events \<noteq> [] \<and> (\<forall>e \<in> set events. fits_int64 (qtime e - now)) \<longrightarrow>
      (\<exists>df. get_latest_quakes_chis_fsdn now (Response 200 events) = Inr df
         \<and> map event_id (qrows df) = map event_id events
         \<and> map Time_Delta (qrows df) = map (event_time_delta now) events
         \<and> map quake_colour (qrows df) =
             map (\<lambda>e. spec_colour (event_time_delta now e)) events))
   \<and> (target_centres initial_target = Some (lat, lon)
       \<and> filter (in_bounds lat lon) events \<noteq> []
       \<and> (\<forall>e \<in> set (filter (in_bounds lat lon) events). fits_int64 (qtime e - now)) \<longrightarrow>
        (\<exists>df. get_latest_quakes_chis_fsdn_site now initial_target target_centres
                 (Response 200 events) = Inr df
          \<and> map event_id (qrows df) = map event_id (filter (in_bounds lat lon) events)
          \<and> map Time_Delta (qrows df) =
              map (event_time_delta now) (filter (in_bounds lat lon) events)
          \<and> map quake_colour (qrows df) =
              map (\<lambda>e. spec_colour (event_time_delta now e))
                (filter (in_bounds lat lon) events)))
   \<and> (events = [] \<longrightarrow>
        get_latest_quakes_chis_fsdn now (Response 200 events) = Inl TypeError)
   \<and> (target_centres initial_target = Some (lat, lon)
       \<and> filter (in_bounds lat lon) events = [] \<longrightarrow>
        get_latest_quakes_chis_fsdn_site now initial_target target_centres
          (Response 200 events) = Inl TypeError)
   \<and> (\<forall>d. (d - 1) * day_ns < now - qtime e \<and> now - qtime e \<le> d * day_ns \<longrightarrow>
          event_time_delta now e = d)
   \<and> (now - qtime e = 1 * day_ns \<longrightarrow> quake_colour (colour_row now e) = ''red'')
   \<and> (now - qtime e = 5 * day_ns \<longrightarrow> quake_colour (colour_row now e) = ''orange'')
   \<and> (now - qtime e = 15 * day_ns \<longrightarrow> quake_colour (colour_row now e) = ''yellow'')
   \<and> (now - qtime e = 40 * day_ns \<longrightarrow> quake_colour (colour_row now e) = ''white'')
   \<and> (now - qtime e = 1 * day_ns \<longrightarrow>
        (\<exists>df. get_latest_quakes_chis_fsdn now (Response 200 [e]) = Inr df
           \<and> map quake_colour (qrows df) = [''red'']))
   \<and> (now - qtime e = 5 * day_ns \<longrightarrow>
        (\<exists>df. get_latest_quakes_chis_fsdn now (Response 200 [e]) = Inr df
           \<and> map quake_colour (qrows df) = [''orange'']))
   \<and> (now - qtime e = 15 * day_ns \<longrightarrow>
        (\<exists>df. get_latest_quakes_chis_fsdn now (Response 200 [e]) = Inr df
           \<and> map quake_colour (qrows df) = [''yellow'']))
   \<and> (now - qtime e = 40 * day_ns \<longrightarrow>
        (\<exists>df. get_latest_quakes_chis_fsdn now (Response 200 [e]) = Inr df
           \<and> map quake_colour (qrows df) = [''white'']))"
proof -
  have one: "events \<noteq> [] \<and> (\<forall>e \<in> set events. fits_int64 (qtime e - now)) \<longrightarrow>
      (\<exists>df. get_latest_quakes_chis_fsdn now (Response 200 events) = Inr df
         \<and> map event_id (qrows df) = map event_id events
         \<and> map Time_Delta (qrows df) = map (event_time_delta now) events
         \<and> map quake_colour (qrows df) =
             map (\<lambda>e. spec_colour (event_time_delta now e)) events)"
    using colour_frame_rows [of events now] by (simp add: get_latest_quakes_chis_fsdn_def)
  have site: "target_centres initial_target = Some (lat, lon)
       \<and> filter (in_bounds lat lon) events \<noteq> []
       \<and> (\<forall>e \<in> set (filter (in_bounds lat lon) events). fits_int64 (qtime e - now)) \<longrightarrow>
        (\<exists>df. get_latest_quakes_chis_fsdn_site now initial_target target_centres
                 (Response 200 events) = Inr df
          \<and> map event_id (qrows df) = map event_id (filter (in_bounds lat lon) events)
          \<and> map Time_Delta (qrows df) =
              map (event_time_delta now) (filter (in_bounds lat lon) events)
          \<and> map quake_colour (qrows df) =
              map (\<lambda>e. spec_colour (event_time_delta now e))
                (filter (in_bounds lat lon) events))"
    using colour_frame_rows [of "filter (in_bounds lat lon) events" now]
    by (simp add: get_latest_quakes_chis_fsdn_site_def)
  have none: "events = [] \<longrightarrow>
        get_latest_quakes_chis_fsdn now (Response 200 events) = Inl TypeError"
    by (simp add: get_latest_quakes_chis_fsdn_def colour_frame_empty)
  have site_none: "target_centres initial_target = Some (lat, lon)
       \<and> filter (in_bounds lat lon) events = [] \<longrightarrow>
        get_latest_quakes_chis_fsdn_site now initial_target target_centres
          (Response 200 events) = Inl TypeError"
    by (simp add: get_latest_quakes_chis_fsdn_site_def colour_frame_empty)
  have age: "\<forall>d. (d - 1) * day_ns < now - qtime e \<and> now - qtime e \<le> d * day_ns \<longrightarrow>
          event_time_delta now e = d"
    using event_time_delta_whole_days [of _ now e] by blast
  have pos: "0 < day_ns"
    by (simp add: day_ns_def)
  have ex: "\<And>d. now - qtime e = d * day_ns \<Longrightarrow> event_time_delta now e = d"
    using event_time_delta_whole_days [of _ now e] pos by (simp add: algebra_simps)
  have c1: "now - qtime e = 1 * day_ns \<longrightarrow> quake_colour (colour_row now e) = ''red''"
    using ex [of 1] by (simp add: colour_row_fields spec_colour_def)
  have c5: "now - qtime e = 5 * day_ns \<longrightarrow> quake_colour (colour_row now e) = ''orange''"
    using ex [of 5] by (simp add: colour_row_fields spec_colour_def)
  have c15: "now - qtime e = 15 * day_ns \<longrightarrow> quake_colour (colour_row now e) = ''yellow''"
    using ex [of 15] by (simp add: colour_row_fields spec_colour_def)
  have c40: "now - qtime e = 40 * day_ns \<longrightarrow> quake_colour (colour_row now e) = ''white''"
    using ex [of 40] by (simp add: colour_row_fields spec_colour_def)
  have single: "\<And>d. now - qtime e = d * day_ns \<Longrightarrow> 0 \<le> d \<Longrightarrow> d \<le> 40 \<Longrightarrow>
      get_latest_quakes_chis_fsdn now (Response 200 [e]) =
        Inr \<lparr>qcolumns = parsed_columns @ [''Time_Delta'', ''quake_colour''],
             qrows = [colour_row now e]\<rparr>"
  proof -
    fix d :: int
    assume "now - qtime e = d * day_ns" and "0 \<le> d" and "d \<le> 40"
    then have "qtime e - now = - d * day_ns" and "- 40 \<le> - d" and "- d \<le> 0"
      by (simp_all add: algebra_simps)
    then have "- 40 * day_ns \<le> qtime e - now" and "qtime e - now \<le> 0"
      using pos by (simp_all add: mult_le_cancel_right)
    then have "fits_int64 (qtime e - now)"
      by (simp add: fits_int64_def day_ns_def)
    then show "get_latest_quakes_chis_fsdn now (Response 200 [e]) =
        Inr \<lparr>qcolumns = parsed_columns @ [''Time_Delta'', ''quake_colour''],
             qrows = [colour_row now e]\<rparr>"
      by (simp add: get_latest_quakes_chis_fsdn_def colour_frame_def)
  qed
  have f1: "now - qtime e = 1 * day_ns \<longrightarrow>
        (\<exists>df. get_latest_quakes_chis_fsdn now (Response 200 [e]) = Inr df
           \<and> map quake_colour (qrows df) = [''red''])"
    using single [of 1] c1 by simp
  have f5: "now - qtime e = 5 * day_ns \<longrightarrow>
        (\<exists>df. get_latest_quakes_chis_fsdn now (Response 200 [e]) = Inr df
           \<and> map quake_colour (qrows df) = [''orange''])"
    using single [of 5] c5 by simp
  have f15: "now - qtime e = 15 * day_ns \<longrightarrow>
        (\<exists>df. get_latest_quakes_chis_fsdn now (Response 200 [e]) = Inr df
           \<and> map quake_colour (qrows df) = [''yellow''])"
    using single [of 15] c15 by simp
  have f40: "now - qtime e = 40 * day_ns \<longrightarrow>
        (\<exists>df. get_latest_quakes_chis_fsdn now (Response 200 [e]) = Inr df
           \<and> map quake_colour (qrows df) = [''white''])"
    using single [of 40] c40 by simp
  show ?thesis
    using one site none site_none age c1 c5 c15 c40 f1 f5 f15 f40 by blast
qed

theorem quake_colour_by_age_witness:
  "[''Garibaldi'' \<mapsto> (50, -123)] ''Garibaldi'' = Some (50 :: real, -123 :: real)
   \<and> 100 * day_ns - 99 * day_ns = 1 * day_ns
   \<and> 100 * day_ns - 95 * day_ns = 5 * day_ns
   \<and> 100 * day_ns - 85 * day_ns = 15 * day_ns
   \<and> 100 * day_ns - 60 * day_ns = 40 * day_ns
   \<and> (3 - 1) * day_ns < 100 * day_ns - (98 * day_ns - 5)
   \<and> 100 * day_ns - (98 * day_ns - 5) \<le> 3 * day_ns
   \<and> fits_int64 (99 * day_ns - 100 * day_ns)
   \<and> fits_int64 (60 * day_ns - 100 * day_ns)
   \<and> event_time_delta (100 * day_ns)
        \<lparr>event_id = ''e5'', qtime = 98 * day_ns - 5, latitude = 50, longitude = -123\<rparr> = 3
   \<and> quake_colour (colour_row (100 * day_ns)
        \<lparr>event_id = ''e1'', qtime = 99 * day_ns, latitude = 50, longitude = -123\<rparr>) = ''red''
   \<and> quake_colour (colour_row (100 * day_ns)
        \<lparr>event_id = ''e2'', qtime = 95 * day_ns, latitude = 50, longitude = -123\<rparr>) = ''orange''
   \<and> quake_colour (colour_row (100 * day_ns)
        \<lparr>event_id = ''e3'', qtime = 85 * day_ns, latitude = 50, longitude = -123\<rparr>) = ''yellow''
   \<and> quake_colour (colour_row (100 * day_ns)
        \<lparr>event_id = ''e4'', qtime = 60 * day_ns, latitude = 60, longitude = -123\<rparr>) = ''white''
   \<and> (\<exists>df. get_latest_quakes_chis_fsdn (100 * day_ns)
               (Response 200
                 [\<lparr>event_id = ''e1'', qtime = 99 * day_ns, latitude = 50, longitude = -123\<rparr>,
                  \<lparr>event_id = ''e4'', qtime = 60 * day_ns, latitude = 60, longitude = -123\<rparr>])
             = Inr df
          \<and> map quake_colour (qrows df) = [''red'', ''white''])
   \<and> (\<exists>df. get_latest_quakes_chis_fsdn_site (100 * day_ns) ''Garibaldi''
               [''Garibaldi'' \<mapsto> (50, -123)]
               (Response 200
                 [\<lparr>event_id = ''e1'', qtime = 99 * day_ns, latitude = 50, longitude = -123\<rparr>,
                  \<lparr>event_id = ''e4'', qtime = 60 * day_ns, latitude = 60, longitude = -123\<rparr>])
             = Inr df
          \<and> map event_id (qrows df) = [''e1'']
          \<and> map quake_colour (qrows df) = [''red''])
   \<and> get_latest_quakes_chis_fsdn (100 * day_ns) (Response 200 []) = Inl TypeError
   \<and> get_latest_quakes_chis_fsdn_site (100 * day_ns) ''Garibaldi''
        [''Garibaldi'' \<mapsto> (50, -123)]
        (Response 200
          [\<lparr>event_id = ''e4'', qtime = 60 * day_ns, latitude = 60, longitude = -123\<rparr>])
       = Inl TypeError
   \<and> (\<exists>df. get_latest_quakes_chis_fsdn (100 * day_ns)
               (Response 200
                 [\<lparr>event_id = ''e2'', qtime = 95 * day_ns, latitude = 50, longitude = -123\<rparr>])
             = Inr df
          \<and> map quake_colour (qrows df) = [''orange''])"
proof -
  let ?now = "100 * day_ns"
  let ?e1 = "\<lparr>event_id = ''e1'', qtime = 99 * day_ns, latitude = 50, longitude = -123\<rparr>"
  let ?e2 = "\<lparr>event_id = ''e2'', qtime = 95 * day_ns, latitude = 50, longitude = -123\<rparr>"
  let ?e3 = "\<lparr>event_id = ''e3'', qtime = 85 * day_ns, latitude = 50, longitude = -123\<rparr>"
  let ?e4 = "\<lparr>event_id = ''e4'', qtime = 60 * day_ns, latitude = 60, longitude = -123\<rparr>"
  let ?e5 = "\<lparr>event_id = ''e5'', qtime = 98 * day_ns - 5, latitude = 50, longitude = -123\<rparr>"
  let ?tc = "[''Garibaldi'' \<mapsto> (50 :: real, -123 :: real)]"
  have tc: "?tc ''Garibaldi'' = Some (50, -123)"
    by simp
  have b: "filter (in_bounds 50 (-123)) [?e1, ?e4] = [?e1]"
    and b4: "filter (in_bounds 50 (-123)) [?e4] = []"
    by (simp_all add: in_bounds_def)
  have d1: "?now - 99 * day_ns = 1 * day_ns" and d5: "?now - 95 * day_ns = 5 * day_ns"
    and d15: "?now - 85 * day_ns = 15 * day_ns" and d40: "?now - 60 * day_ns = 40 * day_ns"
    by simp_all
  have q1: "?now - qtime ?e1 = 1 * day_ns" and q2: "?now - qtime ?e2 = 5 * day_ns"
    and q3: "?now - qtime ?e3 = 15 * day_ns" and q4: "?now - qtime ?e4 = 40 * day_ns"
    by simp_all
  have fit1: "fits_int64 (99 * day_ns - 100 * day_ns)"
    and fit4: "fits_int64 (60 * day_ns - 100 * day_ns)"
    by (simp_all add: fits_int64_def day_ns_def)
  have ne: "[?e1, ?e4] \<noteq> []"
    by simp
  have ne1: "filter (in_bounds 50 (-123)) [?e1, ?e4] \<noteq> []"
    unfolding b by simp
  have fits: "\<forall>e \<in> set [?e1, ?e4]. fits_int64 (qtime e - ?now)"
    using fit1 fit4 by simp
  have fits1: "\<forall>e \<in> set (filter (in_bounds 50 (-123)) [?e1, ?e4]). fits_int64 (qtime e - ?now)"
    unfolding b using fit1 by simp
  have td1: "event_time_delta ?now ?e1 = 1" and td4: "event_time_delta ?now ?e4 = 40"
    by (simp_all add: event_time_delta_def timedelta_days_def day_ns_def)
  have cols: "map (\<lambda>e. spec_colour (event_time_delta ?now e)) [?e1, ?e4] = [''red'', ''white'']"
    and cols1: "map (\<lambda>e. spec_colour (event_time_delta ?now e)) [?e1] = [''red'']"
    and ids1: "map event_id [?e1] = [''e1'']"
    by (simp_all add: td1 td4 spec_colour_def)
  note t1 = quake_colour_by_age [of "[]" ?now ?tc "''Garibaldi''" 50 "-123" ?e1]
  note t2 = quake_colour_by_age [of "[]" ?now ?tc "''Garibaldi''" 50 "-123" ?e2]
  note t3 = quake_colour_by_age [of "[]" ?now ?tc "''Garibaldi''" 50 "-123" ?e3]
  note t4 = quake_colour_by_age [of "[]" ?now ?tc "''Garibaldi''" 50 "-123" ?e4]
  note t5 = quake_colour_by_age [of "[]" ?now ?tc "''Garibaldi''" 50 "-123" ?e5]
  note tl = quake_colour_by_age [of "[?e1, ?e4]" ?now ?tc "''Garibaldi''" 50 "-123" ?e1]
  note t6 = quake_colour_by_age [of "[?e4]" ?now ?tc "''Garibaldi''" 50 "-123" ?e1]
  have r1: "quake_colour (colour_row ?now ?e1) = ''red''"
    by (rule t1 [THEN conjunct2, THEN conjunct2, THEN conjunct2, THEN conjunct2, THEN conjunct2,
      THEN conjunct1, THEN mp, OF q1])
  have r2: "quake_colour (colour_row ?now ?e2) = ''orange''"
    by (rule t2 [THEN conjunct2, THEN conjunct2, THEN conjunct2, THEN conjunct2, THEN conjunct2,
      THEN conjunct2, THEN conjunct1, THEN mp, OF q2])
  have r3: "quake_colour (colour_row ?now ?e3) = ''yellow''"
    by (rule t3 [THEN conjunct2, THEN conjunct2, THEN conjunct2, THEN conjunct2, THEN conjunct2,
      THEN conjunct2, THEN conjunct2, THEN conjunct1, THEN mp, OF q3])
  have r4: "quake_colour (colour_row ?now ?e4) = ''white''"
    by (rule t4 [THEN conjunct2, THEN conjunct2, THEN conjunct2, THEN conjunct2, THEN conjunct2,
      THEN conjunct2, THEN conjunct2, THEN conjunct2, THEN conjunct1, THEN mp, OF q4])
  have h5a: "(3 - 1) * day_ns < ?now - (98 * day_ns - 5)"
    and h5b: "?now - (98 * day_ns - 5) \<le> 3 * day_ns"
    by (simp_all add: day_ns_def)
  have h5: "(3 - 1) * day_ns < ?now - qtime ?e5 \<and> ?now - qtime ?e5 \<le> 3 * day_ns"
    using h5a h5b by simp
  have "(3 - 1) * day_ns < ?now - qtime ?e5 \<and> ?now - qtime ?e5 \<le> 3 * day_ns \<longrightarrow>
          event_time_delta ?now ?e5 = 3"
    using t5 [THEN conjunct2, THEN conjunct2, THEN conjunct2, THEN conjunct2, THEN conjunct1]
    by (rule spec)
  then have r5: "event_time_delta ?now ?e5 = 3"
    using h5 by (rule mp)
  have a: "\<exists>df. get_latest_quakes_chis_fsdn ?now (Response 200 [?e1, ?e4]) = Inr df
          \<and> map quake_colour (qrows df) = [''red'', ''white'']"
    using tl [THEN conjunct1, THEN mp, OF conjI [OF ne fits], unfolded cols]
    by (elim exE conjE) (intro exI conjI, assumption+)
  have s: "\<exists>df. get_latest_quakes_chis_fsdn_site ?now ''Garibaldi'' ?tc
                    (Response 200 [?e1, ?e4]) = Inr df
             \<and> map event_id (qrows df) = [''e1'']
             \<and> map quake_colour (qrows df) = [''red'']"
    using tl [THEN conjunct2, THEN conjunct1, THEN mp, OF conjI [OF tc conjI [OF ne1 fits1]],
      unfolded b cols1 ids1]
    by (elim exE conjE) (intro exI conjI, assumption+)
  have n: "get_latest_quakes_chis_fsdn ?now (Response 200 []) = Inl TypeError"
    by (rule t1 [THEN conjunct2, THEN conjunct2, THEN conjunct1, THEN mp, OF refl])
  have sn: "get_latest_quakes_chis_fsdn_site ?now ''Garibaldi'' ?tc (Response 200 [?e4])
              = Inl TypeError"
    by (rule t6 [THEN conjunct2, THEN conjunct2, THEN conjunct2, THEN conjunct1, THEN mp,
      OF conjI [OF tc b4]])
  have o: "\<exists>df. get_latest_quakes_chis_fsdn ?now (Response 200 [?e2]) = Inr df
          \<and> map quake_colour (qrows df) = [''orange'']"
    by (rule t2 [THEN conjunct2, THEN conjunct2, THEN conjunct2, THEN conjunct2, THEN conjunct2,
      THEN conjunct2, THEN conjunct2, THEN conjunct2, THEN conjunct2, THEN conjunct2,
      THEN conjunct1, THEN mp, OF q2])
  show ?thesis
    by (intro conjI tc d1 d5 d15 d40 h5a h5b fit1 fit4 r5 r1 r2 r3 r4 a s n sn o)
qed

text \<open>
  Claim C6. Both queries return a table whatever the outcome of the request. On a
  response whose status is not 200, here 503, \<open>get_latest_quakes_chis_fsdn\<close> raises
  \<open>UnboundLocalError\<close> instead, while \<open>get_latest_quakes_chis_fsdn_site\<close>, which
  initialises \<open>df\<close> before the request, returns an empty table. On a connection
  failure both return the table with the one column \<open>#EventID\<close> and no row.
\<close>

theorem quakes_non200_unbound:
  "get_latest_quakes_chis_fsdn 0 (Response 503 []) = Inl UnboundLocalError
   \<and> get_latest_quakes_chis_fsdn_site 0 ''Garibaldi'' [''Garibaldi'' \<mapsto> (50, -123)]
        (Response 503 []) = Inr \<lparr>qcolumns = [], qrows = []\<rparr>
   \<and> get_latest_quakes_chis_fsdn 0 ConnectionError
        = Inr \<lparr>qcolumns = [''#EventID''], qrows = []\<rparr>
   \<and> get_latest_quakes_chis_fsdn_site 0 ''Garibaldi'' [''Garibaldi'' \<mapsto> (50, -123)]
        ConnectionError = Inr \<lparr>qcolumns = [''#EventID''], qrows = []\<rparr>"
  by (simp add: get_latest_quakes_chis_fsdn_def get_latest_quakes_chis_fsdn_site_def
        empty_event_table_def)

section \<open>Properties of the matrix reshaper\<close>

lemma sorted_hd_last:
  fixes xs :: "'a :: linorder list"
  assumes "sorted xs" and "x \<in> set xs"
  shows "hd xs \<le> x \<and> x \<le> last xs"
  using assms by (induction xs) auto

lemma first_valid_index_Some:
  "first_valid_index labels = Some l \<longleftrightarrow> labels \<noteq> [] \<and> l = hd labels"
  by (cases labels) (auto simp: first_valid_index_def)

lemma last_valid_index_Some:
  "last_valid_index labels = Some l \<longleftrightarrow> labels \<noteq> [] \<and> l = last labels"
  by (auto simp: last_valid_index_def)

lemma first_valid_index_None: "first_valid_index labels = None \<longleftrightarrow> labels = []"
  by (cases labels) (auto simp: first_valid_index_def)

lemma last_valid_index_None: "last_valid_index labels = None \<longleftrightarrow> labels = []"
  by (auto simp: last_valid_index_def)

lemma valid_index_Nil: "first_valid_index [] = None" "last_valid_index [] = None"
  by (simp_all add: first_valid_index_def last_valid_index_def)

lemma valid_rows_iff:
  "d \<in> set (valid_rows w) \<longleftrightarrow>
     d \<in> set (windex w) \<and> (\<exists>c \<in> set (wcolumns w). wcell w d c \<noteq> None)"
  by (auto simp: valid_rows_def list_ex_iff)

lemma valid_cols_iff:
  "c \<in> set (valid_cols w) \<longleftrightarrow>
     c \<in> set (wcolumns w) \<and> (\<exists>d \<in> set (windex w). wcell w d c \<noteq> None)"
  by (auto simp: valid_cols_def list_ex_iff)

text \<open>Cutting both axes down to labels that include every valid row and column keeps
  the valid rows and columns.\<close>

lemma valid_rows_cut:
  assumes "\<And>d. d \<in> set (valid_rows w) \<Longrightarrow> P d"
    and "\<And>c. c \<in> set (valid_cols w) \<Longrightarrow> Q c"
  shows "valid_rows (w\<lparr>windex := filter P (windex w), wcolumns := filter Q (wcolumns w)\<rparr>)
           = valid_rows w"
proof -
  have "filter (\<lambda>d. list_ex (\<lambda>c. wcell w d c \<noteq> None) (filter Q (wcolumns w)))
          (filter P (windex w))
        = filter (\<lambda>d. list_ex (\<lambda>c. wcell w d c \<noteq> None) (wcolumns w)) (windex w)"
    unfolding filter_filter
  proof (rule filter_cong [OF refl])
    fix d
    assume d: "d \<in> set (windex w)"
    show "(P d \<and> list_ex (\<lambda>c. wcell w d c \<noteq> None) (filter Q (wcolumns w)))
            = list_ex (\<lambda>c. wcell w d c \<noteq> None) (wcolumns w)"
      unfolding list_ex_iff set_filter
      using d assms(1) [of d] assms(2) valid_rows_iff [of d w] valid_cols_iff [of _ w]
      by blast
  qed
  then show ?thesis
    by (simp add: valid_rows_def)
qed

lemma valid_cols_cut:
  assumes "\<And>d. d \<in> set (valid_rows w) \<Longrightarrow> P d"
    and "\<And>c. c \<in> set (valid_cols w) \<Longrightarrow> Q c"
  shows "valid_cols (w\<lparr>windex := filter P (windex w), wcolumns := filter Q (wcolumns w)\<rparr>)
           = valid_cols w"
proof -
  have "filter (\<lambda>c. list_ex (\<lambda>d. wcell w d c \<noteq> None) (filter P (windex w)))
          (filter Q (wcolumns w))
        = filter (\<lambda>c. list_ex (\<lambda>d. wcell w d c \<noteq> None) (windex w)) (wcolumns w)"
    unfolding filter_filter
  proof (rule filter_cong [OF refl])
    fix c
    assume c: "c \<in> set (wcolumns w)"
    show "(Q c \<and> list_ex (\<lambda>d. wcell w d c \<noteq> None) (filter P (windex w)))
            = list_ex (\<lambda>d. wcell w d c \<noteq> None) (windex w)"
      unfolding list_ex_iff set_filter
      using c assms(1) assms(2) [of c] valid_rows_iff [of _ w] valid_cols_iff [of c w]
      by blast
  qed
  then show ?thesis
    by (simp add: valid_cols_def)
qed

lemma sorted_valid_rows: "sorted (windex w) \<Longrightarrow> sorted (valid_rows w)"
  by (simp add: valid_rows_def sorted_wrt_filter)

lemma sorted_valid_cols: "sorted (wcolumns w) \<Longrightarrow> sorted (valid_cols w)"
  by (simp add: valid_cols_def sorted_wrt_filter)

lemma trim_insar_idem:
  assumes si: "sorted (windex w)" and sc: "sorted (wcolumns w)"
    and t: "trim_insar w = Inr w'"
  shows "trim_insar w' = Inr w'"
proof -
  let ?P = "\<lambda>d. hd (valid_rows w) \<le> d \<and> d \<le> last (valid_rows w)"
  let ?Q = "\<lambda>c. hd (valid_cols w) \<le> c \<and> c \<le> last (valid_cols w)"
  have ne: "valid_rows w \<noteq> []" "valid_cols w \<noteq> []"
    using t
    by (auto simp: trim_insar_def valid_index_Nil split: option.splits)
  from t obtain r1 r2 c1 c2 where
    b: "first_valid_index (valid_rows w) = Some r1" "last_valid_index (valid_rows w) = Some r2"
       "first_valid_index (valid_cols w) = Some c1" "last_valid_index (valid_cols w) = Some c2"
    and w0: "w' = w\<lparr>windex := filter (\<lambda>d. r1 \<le> d \<and> d \<le> r2) (windex w),
                       wcolumns := filter (\<lambda>c. c1 \<le> c \<and> c \<le> c2) (wcolumns w)\<rparr>"
    by (auto simp: trim_insar_def split: option.splits)
  have w': "w' = w\<lparr>windex := filter ?P (windex w), wcolumns := filter ?Q (wcolumns w)\<rparr>"
    using b w0 by (simp add: first_valid_index_Some last_valid_index_Some)
  have P: "\<And>d. d \<in> set (valid_rows w) \<Longrightarrow> ?P d"
    using sorted_hd_last [OF sorted_valid_rows [OF si]] by blast
  have Q: "\<And>c. c \<in> set (valid_cols w) \<Longrightarrow> ?Q c"
    using sorted_hd_last [OF sorted_valid_cols [OF sc]] by blast
  have vr: "valid_rows w' = valid_rows w"
    unfolding w' using P Q by (rule valid_rows_cut)
  have vc: "valid_cols w' = valid_cols w"
    unfolding w' using P Q by (rule valid_cols_cut)
  have "trim_insar w' =
          Inr (w'\<lparr>windex := filter ?P (windex w'), wcolumns := filter ?Q (wcolumns w')\<rparr>)"
    using ne by (simp add: trim_insar_def vr vc first_valid_index_def last_valid_index_def
                     split: list.splits)
  also have "\<dots> = Inr w'"
    by (simp add: w')
  finally show ?thesis .
qed

lemma trim_coh_idem:
  assumes si: "sorted (windex w)" and sc: "sorted (wcolumns w)"
    and nn: "\<forall>d \<in> set (windex w). \<forall>c \<in> set (wcolumns w). wcell w d c \<noteq> None \<longrightarrow> 0 \<le> d"
    and t: "trim_coh w = Inr w'"
  shows "trim_coh w' = Inr w'"
proof -
  let ?P = "\<lambda>d. d \<ge> 0 \<and> d \<le> last (valid_rows w)"
  let ?Q = "\<lambda>c. c \<ge> hd (valid_cols w) \<and> c \<le> last (valid_cols w)"
  have nc: "valid_cols w \<noteq> []"
    using t
    by (auto simp: trim_coh_def Let_def valid_index_Nil split: option.splits)
  then obtain c where "c \<in> set (valid_cols w)"
    by (cases "valid_cols w") auto
  then obtain d where "d \<in> set (valid_rows w)"
    using valid_cols_iff [of c w] valid_rows_iff [of _ w] by blast
  then have nr: "valid_rows w \<noteq> []"
    by auto
  from t obtain c1 c2 where
    b: "first_valid_index (valid_cols w) = Some c1" "last_valid_index (valid_cols w) = Some c2"
    and w0: "w' = w\<lparr>windex := (case last_valid_index (valid_rows w) of
                                     None \<Rightarrow> []
                                   | Some l \<Rightarrow> filter (\<lambda>d. d \<ge> 0 \<and> d \<le> l) (windex w)),
                       wcolumns := filter (\<lambda>c. c \<ge> c1 \<and> c \<le> c2) (wcolumns w)\<rparr>"
    by (auto simp: trim_coh_def Let_def split: option.splits)
  have w': "w' = w\<lparr>windex := filter ?P (windex w), wcolumns := filter ?Q (wcolumns w)\<rparr>"
    using b w0 nr by (simp add: first_valid_index_Some last_valid_index_Some last_valid_index_def)
  have P: "\<And>d. d \<in> set (valid_rows w) \<Longrightarrow> ?P d"
    using sorted_hd_last [OF sorted_valid_rows [OF si]] nn valid_rows_iff [of _ w] by blast
  have Q: "\<And>c. c \<in> set (valid_cols w) \<Longrightarrow> ?Q c"
    using sorted_hd_last [OF sorted_valid_cols [OF sc]] by blast
  have vr: "valid_rows w' = valid_rows w"
    unfolding w' using P Q by (rule valid_rows_cut)
  have vc: "valid_cols w' = valid_cols w"
    unfolding w' using P Q by (rule valid_cols_cut)
  have "trim_coh w' =
          Inr (w'\<lparr>windex := filter ?P (windex w'), wcolumns := filter ?Q (wcolumns w')\<rparr>)"
    using nr nc by (simp add: trim_coh_def vr vc first_valid_index_def last_valid_index_def
                     split: list.splits)
  also have "\<dots> = Inr w'"
    by (simp add: w')
  finally show ?thesis .
qed

lemma pivot_sorted:
  assumes "pivot vals long = Inr w"
  shows "sorted (windex w)" and "sorted (wcolumns w)"
  using assms by (auto simp: pivot_def split: if_splits)

lemma pivot_cell:
  assumes "pivot vals long = Inr w" and "wcell w d c \<noteq> None"
  shows "\<exists>r \<in> set long. delta_days r = d \<and> second_date r = c \<and> vals r = wcell w d c"
proof -
  have cell: "wcell w d c =
      (case find (\<lambda>r. delta_days r = d \<and> second_date r = c) long of
         None \<Rightarrow> None | Some r \<Rightarrow> vals r)"
    using assms(1) by (auto simp: pivot_def split: if_splits)
  with assms(2) obtain r where f: "find (\<lambda>r. delta_days r = d \<and> second_date r = c) long = Some r"
    by (auto split: option.splits)
  then have "r \<in> set long" and "delta_days r = d \<and> second_date r = c"
    by (auto simp: find_Some_iff)
  then show ?thesis
    using cell f by auto
qed

lemma loc_set_row_nan_props:
  assumes "loc_set_row_nan k w = w'"
  shows "wcolumns w' = wcolumns w"
    and "set (windex w') = insert k (set (windex w))"
    and "wcell w' d c = (if d = k then None else wcell w d c)"
  using assms by (auto simp: loc_set_row_nan_def split: if_splits)

lemma prepared_sorted:
  assumes "pivot vals long = Inr w1" and "loc_set_row_nan 0 w1 = w2"
  shows "sorted (windex (round_wide (sort_index w2)))"
    and "sorted (wcolumns (round_wide (sort_index w2)))"
  using pivot_sorted [OF assms(1)] loc_set_row_nan_props(1) [OF assms(2)]
  by (simp_all add: round_wide_def map_wide_def sort_index_def)

lemma prepared_cell:
  assumes "pivot pvalue long = Inr w1" and "loc_set_row_nan 0 w1 = w2"
    and "wcell (round_wide (sort_index w2)) d c \<noteq> None"
  shows "\<exists>r \<in> set long. delta_days r = d \<and> second_date r = c \<and> pvalue r \<noteq> None"
proof -
  have "wcell w1 d c \<noteq> None"
    using assms(3) loc_set_row_nan_props(3) [OF assms(2), of d c]
    by (auto simp: round_wide_def map_wide_def sort_index_def split: if_splits)
  then show ?thesis
    using pivot_cell [OF assms(1), of d c] by auto
qed

lemma pivot_and_clean_fixed:
  assumes nn: "\<forall>r \<in> set long. pvalue r \<noteq> None \<longrightarrow> 0 \<le> delta_days r"
    and p: "pivot_and_clean long = Inr w"
  shows "trim_coh w = Inr w"
proof -
  from p obtain w1 w2 where w1: "pivot pvalue long = Inr w1"
    and w2: "loc_set_row_nan 0 w1 = w2"
    and t: "trim_coh (round_wide (sort_index w2)) = Inr w"
    by (auto simp: pivot_and_clean_def split: sum.splits)
  let ?w0 = "round_wide (sort_index w2)"
  have "\<forall>d \<in> set (windex ?w0). \<forall>c \<in> set (wcolumns ?w0). wcell ?w0 d c \<noteq> None \<longrightarrow> 0 \<le> d"
    using prepared_cell [OF w1 w2] nn by blast
  with prepared_sorted [OF w1 w2] show ?thesis
    using t by (rule trim_coh_idem)
qed

lemma pivot_and_clean_insar_fixed:
  assumes p: "pivot_and_clean_insar long = Inr w"
  shows "trim_insar w = Inr w"
proof -
  from p obtain w1 w2 where w1: "pivot pvalue long = Inr w1"
    and w2: "loc_set_row_nan 0 w1 = w2"
    and t: "trim_insar (round_wide (sort_index w2)) = Inr w"
    by (auto simp: pivot_and_clean_insar_def split: sum.splits)
  show ?thesis
    using prepared_sorted [OF w1 w2] t by (rule trim_insar_idem)
qed

lemma delta_days_nonneg:
  assumes "\<forall>r \<in> set rows. pvalue r \<noteq> None \<longrightarrow> second_date r \<ge> first_date r"
    and "with_delta_days rows = Inr long"
  shows "\<forall>r \<in> set long. pvalue r \<noteq> None \<longrightarrow> 0 \<le> delta_days r"
proof -
  have "0 < day_ns"
    by (simp add: day_ns_def)
  then have "\<And>a b :: int. a \<le> b \<Longrightarrow> 0 \<le> (b - a) div day_ns"
    by (simp add: pos_imp_zdiv_nonneg_iff)
  then show ?thesis
    using assms
    by (auto simp: with_delta_days_def pair_record.extend_def timedelta_days_def
             split: if_splits)
qed

lemma read_coherence_ordered:
  assumes "read_coherence files (Some path) = Inr (Some rows)"
  shows "\<forall>r \<in> set rows. pvalue r \<noteq> None \<longrightarrow> second_date r \<ge> first_date r"
  using assms
  by (auto simp: read_coherence_def list_ex_iff wrong_order_def split: option.splits if_splits)

lemma trim_coh_result:
  assumes "trim_coh w = Inr w'"
  shows "valid_rows w \<noteq> []"
    and "windex w' = filter (\<lambda>d. 0 \<le> d \<and> d \<le> last (valid_rows w)) (windex w)"
    and "wcell w' = wcell w"
proof -
  have nc: "valid_cols w \<noteq> []"
    using assms by (auto simp: trim_coh_def Let_def valid_index_Nil split: option.splits)
  then obtain c where "c \<in> set (valid_cols w)"
    by (cases "valid_cols w") auto
  then obtain d where "d \<in> set (valid_rows w)"
    using valid_cols_iff [of c w] valid_rows_iff [of _ w] by blast
  then show nr: "valid_rows w \<noteq> []"
    by auto
  from assms obtain c1 c2 where
    w0: "w' = w\<lparr>windex := (case last_valid_index (valid_rows w) of
                                     None \<Rightarrow> []
                                   | Some l \<Rightarrow> filter (\<lambda>d. d \<ge> 0 \<and> d \<le> l) (windex w)),
                       wcolumns := filter (\<lambda>c. c \<ge> c1 \<and> c \<le> c2) (wcolumns w)\<rparr>"
    by (auto simp: trim_coh_def Let_def split: option.splits)
  show "windex w' = filter (\<lambda>d. 0 \<le> d \<and> d \<le> last (valid_rows w)) (windex w)"
    using w0 nr by (simp add: last_valid_index_def)
  show "wcell w' = wcell w"
    using w0 by simp
qed

text \<open>On a table in which every record with a value has a non-negative
  \<open>delta_days\<close>, the matrix \<open>pivot_and_clean\<close> returns has the row 0, and that row
  is null.\<close>

lemma pivot_and_clean_zero_row:
  assumes nn: "\<forall>r \<in> set long. pvalue r \<noteq> None \<longrightarrow> 0 \<le> delta_days r"
    and p: "pivot_and_clean long = Inr w"
  shows "0 \<in> set (windex w) \<and> (\<forall>c. wcell w 0 c = None)"
proof -
  from p obtain w1 w2 where w1: "pivot pvalue long = Inr w1"
    and w2: "loc_set_row_nan 0 w1 = w2"
    and t: "trim_coh (round_wide (sort_index w2)) = Inr w"
    by (auto simp: pivot_and_clean_def split: sum.splits)
  let ?w0 = "round_wide (sort_index w2)"
  have zero: "0 \<in> set (windex ?w0)"
    using loc_set_row_nan_props(2) [OF w2]
    by (simp add: round_wide_def map_wide_def sort_index_def)
  have null: "\<And>c. wcell ?w0 0 c = None"
    using loc_set_row_nan_props(3) [OF w2, of 0]
    by (simp add: round_wide_def map_wide_def sort_index_def)
  note r = trim_coh_result [OF t]
  have "last (valid_rows ?w0) \<in> set (valid_rows ?w0)"
    using r(1) by simp
  then obtain c where c: "wcell ?w0 (last (valid_rows ?w0)) c \<noteq> None"
    using valid_rows_iff [of _ ?w0] by blast
  have "0 \<le> last (valid_rows ?w0)"
    using prepared_cell [OF w1 w2 c] nn by auto
  then have "0 \<in> set (windex w)"
    using zero r(2) by simp
  then show ?thesis
    using null r(3) by simp
qed

text \<open>The columns of the reference-date matrix ascend and are those columns of the
  value matrix that are the \<open>second_date\<close> of some record whose dates are in order;
  a non-null cell is the formatted \<open>first_date\<close> of such a record.\<close>

lemma pivot_and_clean_dates_columns:
  assumes "pivot_and_clean_dates long w = Inr dw"
  shows "sorted (wcolumns dw)" and "distinct (wcolumns dw)"
    and "set (wcolumns dw) =
           {c \<in> set (wcolumns w). \<exists>r \<in> set long. second_date r = c \<and> first_date r \<le> c}"
proof -
  let ?kept = "filter (\<lambda>r. \<not> second_date r < first_date r) long"
  from assms obtain pw where pw: "pivot (\<lambda>r. Some (first_date r)) ?kept = Inr pw"
    and dw: "dw = (map_wide strftime_b_d_Y pw)
               \<lparr>wcolumns := sort (remdups (filter (\<lambda>c. c \<in> set (wcolumns w))
                                    (wcolumns (map_wide strftime_b_d_Y pw))))\<rparr>"
    by (auto simp: pivot_and_clean_dates_def Let_def split: sum.splits)
  have cols: "wcolumns pw = sort (remdups (map second_date ?kept))"
    using pw by (auto simp: pivot_def split: if_splits)
  show "sorted (wcolumns dw)" and "distinct (wcolumns dw)"
    by (simp_all add: dw)
  show "set (wcolumns dw) =
           {c \<in> set (wcolumns w). \<exists>r \<in> set long. second_date r = c \<and> first_date r \<le> c}"
    by (auto simp: dw cols map_wide_def)
qed

lemma pivot_and_clean_dates_cell:
  assumes "pivot_and_clean_dates long w = Inr dw" and "wcell dw d c = Some txt"
  shows "\<exists>r \<in> set long. delta_days r = d \<and> second_date r = c \<and> first_date r \<le> second_date r
           \<and> txt = strftime_b_d_Y (first_date r)"
proof -
  let ?kept = "filter (\<lambda>r. \<not> second_date r < first_date r) long"
  from assms(1) obtain pw where pw: "pivot (\<lambda>r. Some (first_date r)) ?kept = Inr pw"
    and cell: "wcell dw = wcell (map_wide strftime_b_d_Y pw)"
    by (auto simp: pivot_and_clean_dates_def Let_def split: sum.splits)
  from assms(2) obtain t where t: "wcell pw d c = Some t" and fmt: "txt = strftime_b_d_Y t"
    by (auto simp: cell map_wide_def)
  then obtain r where "r \<in> set ?kept" and "delta_days r = d" and "second_date r = c"
    and "Some (first_date r) = wcell pw d c"
    using pivot_cell [OF pw, of d c] by auto
  then show ?thesis
    using t fmt by auto
qed

text \<open>
  Claim C3. For the table with the single record (2020-01-01, 2020-01-13, 0.9), whose
  \<open>delta_days\<close> is 12, \<open>pivot_and_clean\<close> returns the rows 0 and 12 and the one
  column 2020-01-13; the only non-null cell is the one at row 12, with value 0.90, so
  the row 0 is null.
\<close>

theorem coherence_single_record:
  "strftime_b_d_Y 1577836800000000000 = ''Jan 01, 2020''
   \<and> strftime_b_d_Y 1578873600000000000 = ''Jan 13, 2020''
   \<and> with_delta_days
        [\<lparr>first_date = 1577836800000000000, second_date = 1578873600000000000,
          pvalue = Some 0.9\<rparr>]
       = Inr [\<lparr>first_date = 1577836800000000000, second_date = 1578873600000000000,
               pvalue = Some 0.9, delta_days = 12\<rparr>]
   \<and> index_of (pivot_and_clean
        [\<lparr>first_date = 1577836800000000000, second_date = 1578873600000000000,
          pvalue = Some 0.9, delta_days = 12\<rparr>]) = Some [0, 12]
   \<and> columns_of (pivot_and_clean
        [\<lparr>first_date = 1577836800000000000, second_date = 1578873600000000000,
          pvalue = Some 0.9, delta_days = 12\<rparr>]) = Some [1578873600000000000]
   \<and> cells_of (pivot_and_clean
        [\<lparr>first_date = 1577836800000000000, second_date = 1578873600000000000,
          pvalue = Some 0.9, delta_days = 12\<rparr>])
       = Some [(12, 1578873600000000000, 0.90)]"
  by code_simp

text \<open>
  Claim C1. The matrix of either reshaper contains a row \<open>delta_days = 0\<close>, all null.
  For the InSAR-pair table with the single record (2020-01-01, 2020-01-13, 1),
  \<open>pivot_and_clean_insar\<close> returns one row only, labelled 12: the zero row it has
  inserted is removed by its own trimming, which starts at the first row with a value.
  \<open>pivot_and_clean\<close> keeps the zero row on the same table.
\<close>

theorem insar_zero_row_trimmed:
  "with_delta_days
      [\<lparr>first_date = 1577836800000000000, second_date = 1578873600000000000,
        pvalue = Some 1\<rparr>]
     = Inr [\<lparr>first_date = 1577836800000000000, second_date = 1578873600000000000,
             pvalue = Some 1, delta_days = 12\<rparr>]
   \<and> index_of (and_then (with_delta_days
      [\<lparr>first_date = 1577836800000000000, second_date = 1578873600000000000,
        pvalue = Some 1\<rparr>]) pivot_and_clean_insar) = Some [12]
   \<and> cells_of (and_then (with_delta_days
      [\<lparr>first_date = 1577836800000000000, second_date = 1578873600000000000,
        pvalue = Some 1\<rparr>]) pivot_and_clean_insar) = Some [(12, 1578873600000000000, 1)]
   \<and> index_of (and_then (with_delta_days
      [\<lparr>first_date = 1577836800000000000, second_date = 1578873600000000000,
        pvalue = Some 1\<rparr>]) pivot_and_clean) = Some [0, 12]"
  by code_simp

text \<open>
  Claim C8. The reference-date matrix has the same columns as the trimmed value
  matrix. The table below passes \<open>read_coherence\<close>: its second record has its dates
  in the wrong order and a null value. For it the value matrix has the columns
  2020-01-13, 2020-01-20 and 2020-01-25, and the reference-date matrix, which drops that
  record before it pivots, has the columns 2020-01-13 and 2020-01-25 only.
\<close>

theorem date_columns_differ:
  "strftime_b_d_Y 1579478400000000000 = ''Jan 20, 2020''
   \<and> strftime_b_d_Y 1579910400000000000 = ''Jan 25, 2020''
   \<and> strftime_b_d_Y 1580515200000000000 = ''Feb 01, 2020''
   \<and> read_coherence
        [''CoherenceMatrix.csv'' \<mapsto>
          [\<lparr>first_date = 1577836800000000000, second_date = 1578873600000000000,
            pvalue = Some 0.9\<rparr>,
           \<lparr>first_date = 1580515200000000000, second_date = 1579478400000000000,
            pvalue = None\<rparr>,
           \<lparr>first_date = 1577836800000000000, second_date = 1579910400000000000,
            pvalue = Some 0.8\<rparr>]]
        (Some ''CoherenceMatrix.csv'')
       = Inr (Some
          [\<lparr>first_date = 1577836800000000000, second_date = 1578873600000000000,
            pvalue = Some 0.9\<rparr>,
           \<lparr>first_date = 1580515200000000000, second_date = 1579478400000000000,
            pvalue = None\<rparr>,
           \<lparr>first_date = 1577836800000000000, second_date = 1579910400000000000,
            pvalue = Some 0.8\<rparr>])
   \<and> columns_of (coh_wide_of (plot_coherence_matrices
          [\<lparr>first_date = 1577836800000000000, second_date = 1578873600000000000,
            pvalue = Some 0.9\<rparr>,
           \<lparr>first_date = 1580515200000000000, second_date = 1579478400000000000,
            pvalue = None\<rparr>,
           \<lparr>first_date = 1577836800000000000, second_date = 1579910400000000000,
            pvalue = Some 0.8\<rparr>]))
       = Some [1578873600000000000, 1579478400000000000, 1579910400000000000]
   \<and> columns_of (date_wide_of (plot_coherence_matrices
          [\<lparr>first_date = 1577836800000000000, second_date = 1578873600000000000,
            pvalue = Some 0.9\<rparr>,
           \<lparr>first_date = 1580515200000000000, second_date = 1579478400000000000,
            pvalue = None\<rparr>,
           \<lparr>first_date = 1577836800000000000, second_date = 1579910400000000000,
            pvalue = Some 0.8\<rparr>]))
       = Some [1578873600000000000, 1579910400000000000]"
  by code_simp

text \<open>
  The condition on the dates in the theorem below is needed. The table here is one the
  readers refuse, its first record having a value and \<open>second_date < first_date\<close>
  (\<open>delta_days = -12\<close>). Called on it directly, \<open>pivot_and_clean\<close> counts the column
  2020-01-01 as valid and keeps it while dropping the row; trimming the result once more
  removes the column, which is now null.
\<close>

lemma trim_coh_unordered_dates:
  "read_coherence
      [''CoherenceMatrix.csv'' \<mapsto>
        [\<lparr>first_date = 1578873600000000000, second_date = 1577836800000000000,
          pvalue = Some 0.5\<rparr>,
         \<lparr>first_date = 1577836800000000000, second_date = 1579910400000000000,
          pvalue = Some 0.8\<rparr>]]
      (Some ''CoherenceMatrix.csv'') = Inl RuntimeError
   \<and> columns_of (pivot_and_clean
      [\<lparr>first_date = 1578873600000000000, second_date = 1577836800000000000,
        pvalue = Some 0.5, delta_days = - 12\<rparr>,
       \<lparr>first_date = 1577836800000000000, second_date = 1579910400000000000,
        pvalue = Some 0.8, delta_days = 24\<rparr>])
     = Some [1577836800000000000, 1579910400000000000]
   \<and> columns_of (retrim_coh (pivot_and_clean
      [\<lparr>first_date = 1578873600000000000, second_date = 1577836800000000000,
        pvalue = Some 0.5, delta_days = - 12\<rparr>,
       \<lparr>first_date = 1577836800000000000, second_date = 1579910400000000000,
        pvalue = Some 0.8, delta_days = 24\<rparr>]))
     = Some [1579910400000000000]"
  by code_simp

lemma plot_coherence_matrices_Inr:
  assumes "plot_coherence_matrices rows = Inr (wc, dw)"
  obtains long where "with_delta_days rows = Inr long" and "pivot_and_clean long = Inr wc"
  using assms by (auto simp: plot_coherence_matrices_def split: sum.splits)

text \<open>
  Claim C4. Trimming a matrix that has been trimmed returns it unchanged. This holds
  for every matrix the reshaper builds: every matrix \<open>pivot_and_clean_insar\<close> returns
  is returned again by its trimming, and so is every matrix \<open>pivot_and_clean\<close>
  returns for a table in which each record with a value has
  \<open>second_date \<ge> first_date\<close>, which are the tables \<open>read_coherence\<close> accepts and
  \<open>plot_coherence\<close> reshapes. It also holds for any matrix whose labels ascend along
  both axes and on which the trimming returns a matrix: for the InSAR variant always,
  for the coherence variant when no non-null cell lies in a row with negative
  \<open>delta_days\<close>.
\<close>

theorem trim_idempotent:
  "(sorted (windex w) \<and> sorted (wcolumns w) \<and> trim_insar w = Inr w' \<longrightarrow>
      trim_insar w' = Inr w')
   \<and> (sorted (windex w) \<and> sorted (wcolumns w)
       \<and> (\<forall>d \<in> set (windex w). \<forall>c \<in> set (wcolumns w). wcell w d c \<noteq> None \<longrightarrow> 0 \<le> d)
       \<and> trim_coh w = Inr w' \<longrightarrow>
      trim_coh w' = Inr w')
   \<and> (pivot_and_clean_insar long = Inr wi \<longrightarrow> trim_insar wi = Inr wi)
   \<and> ((\<forall>r \<in> set rows. pvalue r \<noteq> None \<longrightarrow> second_date r \<ge> first_date r)
       \<and> with_delta_days rows = Inr coh_long \<and> pivot_and_clean coh_long = Inr wc \<longrightarrow>
      trim_coh wc = Inr wc)
   \<and> (read_coherence files (Some path) = Inr (Some rows)
       \<and> with_delta_days rows = Inr coh_long \<and> pivot_and_clean coh_long = Inr wc \<longrightarrow>
      trim_coh wc = Inr wc)
   \<and> (read_coherence files (Some path) = Inr (Some rows)
       \<and> plot_coherence_matrices rows = Inr (wp, dw) \<longrightarrow>
      trim_coh wp = Inr wp)"
proof -
  have a: "sorted (windex w) \<and> sorted (wcolumns w) \<and> trim_insar w = Inr w' \<longrightarrow>
      trim_insar w' = Inr w'"
    using trim_insar_idem [of w w'] by blast
  have b: "sorted (windex w) \<and> sorted (wcolumns w)
       \<and> (\<forall>d \<in> set (windex w). \<forall>c \<in> set (wcolumns w). wcell w d c \<noteq> None \<longrightarrow> 0 \<le> d)
       \<and> trim_coh w = Inr w' \<longrightarrow>
      trim_coh w' = Inr w'"
    using trim_coh_idem [of w w'] by blast
  have c: "pivot_and_clean_insar long = Inr wi \<longrightarrow> trim_insar wi = Inr wi"
    using pivot_and_clean_insar_fixed [of long wi] by blast
  have ordered: "\<And>l m. (\<forall>r \<in> set rows. pvalue r \<noteq> None \<longrightarrow> second_date r \<ge> first_date r)
       \<Longrightarrow> with_delta_days rows = Inr l \<Longrightarrow> pivot_and_clean l = Inr m \<Longrightarrow> trim_coh m = Inr m"
    using pivot_and_clean_fixed [OF delta_days_nonneg] by blast
  have d: "(\<forall>r \<in> set rows. pvalue r \<noteq> None \<longrightarrow> second_date r \<ge> first_date r)
       \<and> with_delta_days rows = Inr coh_long \<and> pivot_and_clean coh_long = Inr wc \<longrightarrow>
      trim_coh wc = Inr wc"
    using ordered by blast
  have e: "read_coherence files (Some path) = Inr (Some rows)
       \<and> with_delta_days rows = Inr coh_long \<and> pivot_and_clean coh_long = Inr wc \<longrightarrow>
      trim_coh wc = Inr wc"
    using ordered read_coherence_ordered [of files path rows] by blast
  have f: "read_coherence files (Some path) = Inr (Some rows)
       \<and> plot_coherence_matrices rows = Inr (wp, dw) \<longrightarrow>
      trim_coh wp = Inr wp"
  proof (intro impI, elim conjE)
    assume r: "read_coherence files (Some path) = Inr (Some rows)"
      and p: "plot_coherence_matrices rows = Inr (wp, dw)"
    from p obtain l where "with_delta_days rows = Inr l" and "pivot_and_clean l = Inr wp"
      by (rule plot_coherence_matrices_Inr)
    then show "trim_coh wp = Inr wp"
      using ordered read_coherence_ordered [OF r] by blast
  qed
  show ?thesis
    using a b c d e f by blast
qed

theorem trim_idempotent_witness:
  "sorted [- 3, 0, 12, 20 :: int] \<and> sorted [10, 20, 30 :: int]
   \<and> trim_insar
        \<lparr>windex = [- 3, 0, 12, 20], wcolumns = [10, 20, 30],
         wcell = (\<lambda>d c. if d = 12 \<and> c = 20 then Some (0.9 :: real) else None)\<rparr>
       = Inr \<lparr>windex = [12], wcolumns = [20],
              wcell = (\<lambda>d c. if d = 12 \<and> c = 20 then Some 0.9 else None)\<rparr>
   \<and> trim_insar
        \<lparr>windex = [12], wcolumns = [20],
         wcell = (\<lambda>d c. if d = 12 \<and> c = 20 then Some (0.9 :: real) else None)\<rparr>
       = Inr \<lparr>windex = [12], wcolumns = [20],
              wcell = (\<lambda>d c. if d = 12 \<and> c = 20 then Some 0.9 else None)\<rparr>
   \<and> trim_coh
        \<lparr>windex = [- 3, 0, 12, 20], wcolumns = [10, 20, 30],
         wcell = (\<lambda>d c. if d = 12 \<and> c = 20 then Some (0.9 :: real) else None)\<rparr>
       = Inr \<lparr>windex = [0, 12], wcolumns = [20],
              wcell = (\<lambda>d c. if d = 12 \<and> c = 20 then Some 0.9 else None)\<rparr>
   \<and> trim_coh
        \<lparr>windex = [0, 12], wcolumns = [20],
         wcell = (\<lambda>d c. if d = 12 \<and> c = 20 then Some (0.9 :: real) else None)\<rparr>
       = Inr \<lparr>windex = [0, 12], wcolumns = [20],
              wcell = (\<lambda>d c. if d = 12 \<and> c = 20 then Some 0.9 else None)\<rparr>
   \<and> index_of (pivot_and_clean_insar
        [\<lparr>first_date = 1577836800000000000, second_date = 1578873600000000000,
          pvalue = Some 1, delta_days = 12\<rparr>]) = Some [12]
   \<and> retrim_insar (pivot_and_clean_insar
        [\<lparr>first_date = 1577836800000000000, second_date = 1578873600000000000,
          pvalue = Some 1, delta_days = 12\<rparr>])
       = pivot_and_clean_insar
        [\<lparr>first_date = 1577836800000000000, second_date = 1578873600000000000,
          pvalue = Some 1, delta_days = 12\<rparr>]
   \<and> read_coherence
        [''CoherenceMatrix.csv'' \<mapsto>
          [\<lparr>first_date = 1577836800000000000, second_date = 1578873600000000000,
            pvalue = Some 0.9\<rparr>]]
        (Some ''CoherenceMatrix.csv'')
       = Inr (Some [\<lparr>first_date = 1577836800000000000, second_date = 1578873600000000000,
                     pvalue = Some 0.9\<rparr>])
   \<and> with_delta_days
        [\<lparr>first_date = 1577836800000000000, second_date = 1578873600000000000,
          pvalue = Some 0.9\<rparr>]
       = Inr [\<lparr>first_date = 1577836800000000000, second_date = 1578873600000000000,
               pvalue = Some 0.9, delta_days = 12\<rparr>]
   \<and> index_of (pivot_and_clean
        [\<lparr>first_date = 1577836800000000000, second_date = 1578873600000000000,
          pvalue = Some 0.9, delta_days = 12\<rparr>]) = Some [0, 12]
   \<and> retrim_coh (pivot_and_clean
        [\<lparr>first_date = 1577836800000000000, second_date = 1578873600000000000,
          pvalue = Some 0.9, delta_days = 12\<rparr>])
       = pivot_and_clean
        [\<lparr>first_date = 1577836800000000000, second_date = 1578873600000000000,
          pvalue = Some 0.9, delta_days = 12\<rparr>]
   \<and> index_of (coh_wide_of (plot_coherence_matrices
        [\<lparr>first_date = 1577836800000000000, second_date = 1578873600000000000,
          pvalue = Some 0.9\<rparr>])) = Some [0, 12]
   \<and> retrim_coh (coh_wide_of (plot_coherence_matrices
        [\<lparr>first_date = 1577836800000000000, second_date = 1578873600000000000,
          pvalue = Some 0.9\<rparr>]))
       = coh_wide_of (plot_coherence_matrices
        [\<lparr>first_date = 1577836800000000000, second_date = 1578873600000000000,
          pvalue = Some 0.9\<rparr>])"
proof -
  let ?cell = "\<lambda>(d :: int) (c :: int). if d = 12 \<and> c = 20 then Some (0.9 :: real) else None"
  let ?w = "\<lparr>windex = [- 3, 0, 12, 20], wcolumns = [10, 20, 30], wcell = ?cell\<rparr>"
  let ?wi = "\<lparr>windex = [12], wcolumns = [20], wcell = ?cell\<rparr>"
  let ?wc = "\<lparr>windex = [0, 12], wcolumns = [20], wcell = ?cell\<rparr>"
  let ?long = "[\<lparr>first_date = 1577836800000000000, second_date = 1578873600000000000,
          pvalue = Some (1 :: real), delta_days = 12\<rparr>]"
  let ?rows = "[\<lparr>first_date = 1577836800000000000, second_date = 1578873600000000000,
          pvalue = Some (0.9 :: real)\<rparr>]"
  let ?coh_long = "[\<lparr>first_date = 1577836800000000000, second_date = 1578873600000000000,
          pvalue = Some (0.9 :: real), delta_days = 12\<rparr>]"
  let ?files = "[''CoherenceMatrix.csv'' \<mapsto> ?rows]"
  have s: "sorted (windex ?w)" "sorted (wcolumns ?w)"
    by simp_all
  have nn: "\<forall>d \<in> set (windex ?w). \<forall>c \<in> set (wcolumns ?w). wcell ?w d c \<noteq> None \<longrightarrow> 0 \<le> d"
    by simp
  have ti: "trim_insar ?w = Inr ?wi"
    by (simp add: trim_insar_def valid_rows_def valid_cols_def first_valid_index_def
          last_valid_index_def del: not_None_eq)
  have tc: "trim_coh ?w = Inr ?wc"
    by (simp add: trim_coh_def valid_rows_def valid_cols_def first_valid_index_def
          last_valid_index_def del: not_None_eq)
  have ix: "index_of (pivot_and_clean_insar ?long) = Some [12]"
    by code_simp
  then obtain wi where wi: "pivot_and_clean_insar ?long = Inr wi"
    by (auto simp: index_of_def split: sum.splits)
  have rd: "read_coherence ?files (Some ''CoherenceMatrix.csv'') = Inr (Some ?rows)"
    by (simp add: read_coherence_def wrong_order_def)
  have dd: "with_delta_days ?rows = Inr ?coh_long"
    by code_simp
  have cx: "index_of (pivot_and_clean ?coh_long) = Some [0, 12]"
    by code_simp
  then obtain wc where wc: "pivot_and_clean ?coh_long = Inr wc"
    by (auto simp: index_of_def split: sum.splits)
  have px: "index_of (coh_wide_of (plot_coherence_matrices ?rows)) = Some [0, 12]"
    by code_simp
  then obtain wp dw where wp: "plot_coherence_matrices ?rows = Inr (wp, dw)"
    by (auto simp: index_of_def coh_wide_of_def split: sum.splits)
  have ord: "\<forall>r \<in> set ?rows. pvalue r \<noteq> None \<longrightarrow> second_date r \<ge> first_date r"
    by simp
  note t = trim_idempotent [of ?w ?wi ?long wi ?rows ?coh_long wc ?files
      "''CoherenceMatrix.csv''" wp dw]
  have r1: "trim_insar ?wi = Inr ?wi"
    using t s ti by blast
  have r2: "trim_coh ?wc = Inr ?wc"
    using trim_idempotent [of ?w ?wc ?long wi ?rows ?coh_long wc ?files
      "''CoherenceMatrix.csv''" wp dw] s nn tc by blast
  have r3: "trim_insar wi = Inr wi"
    using t wi by blast
  have r4: "trim_coh wc = Inr wc"
    using t wc dd ord by blast
  have r5: "trim_coh wp = Inr wp"
    using t rd wp by blast
  have r3': "retrim_insar (pivot_and_clean_insar ?long) = pivot_and_clean_insar ?long"
    unfolding wi using r3 by (simp add: retrim_insar_def)
  have r4': "retrim_coh (pivot_and_clean ?coh_long) = pivot_and_clean ?coh_long"
    unfolding wc using r4 by (simp add: retrim_coh_def)
  have r5': "retrim_coh (coh_wide_of (plot_coherence_matrices ?rows))
               = coh_wide_of (plot_coherence_matrices ?rows)"
    unfolding wp using r5 by (simp add: retrim_coh_def coh_wide_of_def)
  show ?thesis
    using s ti tc r1 r2 ix r3' rd dd cx r4' px r5' by simp
qed

section \<open>Properties of the summary table\<close>

text \<open>
  Claim C7. Given a null GeoJSON, whatever the unrest table and the target API are,
  \<open>build_summary_table\<close> does not raise: it returns the table with the columns
  \<open>Site\<close>, \<open>Latest SAR Image\<close> and \<open>Unrest\<close> and the single row whose three
  cells are the string \<open>API Connection Error\<close>.
\<close>

theorem build_summary_table_null:
  "build_summary_table env None =
     Inr \<lparr>scolumns = [''Site'', ''Latest SAR Image'', ''Unrest''],
          srows = [(Str ''API Connection Error'', Str ''API Connection Error'',
                    Str ''API Connection Error'')]\<rparr>"
  by (simp add: build_summary_table_def summary_try_body_def json_normalize_features_def
        select_summary_def sentinel_frame_def)

end
